theory Spec2Isabelle
  imports Complex_Main "HOL-Library.Word"
begin

section \<open>Values, messages and errors\<close>

text \<open>
  The daemon exchanges loosely typed maps (\<^verbatim>\<open>map[string]interface{}\<close>). A dynamic value
  is one of the Go types the daemon stores in such a map; a type assertion
  \<^verbatim>\<open>v.(string)\<close> is a case distinction on the constructor. A finite \<^verbatim>\<open>float64\<close> is
  modelled by the real number it denotes.
\<close>

type_synonym byte = "8 word"

datatype go_value =
    VBool bool
  | VString string
  | VFloat real
  | VInt int
  | VUint64 "64 word"
  | VStrings "string list"
  | VStringMap "string \<Rightarrow> string option"
  | VMap "string \<Rightarrow> go_value option"

type_synonym msg = "string \<Rightarrow> go_value option"

text \<open>\<^verbatim>\<open>s, _ := m[k].(string)\<close>: the zero value when the key is absent or not a string.\<close>

definition str_field :: "msg \<Rightarrow> string \<Rightarrow> string" where
  "str_field m k = (case m k of Some (VString s) \<Rightarrow> s | _ \<Rightarrow> [])"

definition float_field :: "msg \<Rightarrow> string \<Rightarrow> real" where
  "float_field m k = (case m k of Some (VFloat x) \<Rightarrow> x | _ \<Rightarrow> 0)"

definition bool_field :: "msg \<Rightarrow> string \<Rightarrow> bool" where
  "bool_field m k = (case m k of Some (VBool b) \<Rightarrow> b | _ \<Rightarrow> False)"

text \<open>
  A Go call either returns or panics. Nothing in the daemon recovers, so a panic in any
  goroutine ends the process.
\<close>

datatype 'a exec = Done 'a | Crash string

section \<open>Handler registry (handlers/registry.go)\<close>

text \<open>A handler returns a map, which may be the nil map (\<open>None\<close>), or panics.\<close>

type_synonym Handler = "msg \<Rightarrow> msg option exec"

record Registry =
  handlers :: "string \<Rightarrow> Handler option"

definition NewRegistry :: Registry where
  "NewRegistry = \<lparr>handlers = Map.empty\<rparr>"

definition Register :: "Registry \<Rightarrow> string \<Rightarrow> Handler \<Rightarrow> Registry" where
  "Register r cmdType handler = r\<lparr>handlers := (handlers r)(cmdType \<mapsto> handler)\<rparr>"

definition Handle :: "Registry \<Rightarrow> string \<Rightarrow> msg \<Rightarrow> msg option exec" where
  "Handle r cmdType params =
     (case handlers r cmdType of
        None \<Rightarrow> Done (Some [''success'' \<mapsto> VBool False,
                             ''error'' \<mapsto> VString (''unknown command type: '' @ cmdType)])
      | Some handler \<Rightarrow> handler params)"

definition HasHandler :: "Registry \<Rightarrow> string \<Rightarrow> bool" where
  "HasHandler r cmdType = (handlers r cmdType \<noteq> None)"

text \<open>\<^verbatim>\<open>int(x)\<close> for a \<^verbatim>\<open>float64\<close>: truncation towards zero; outside the range of a
  64-bit \<^verbatim>\<open>int\<close> the result is implementation-defined (amd64 yields the minimum).\<close>

definition wrap64 :: "int \<Rightarrow> int" where
  "wrap64 x = (x + 2 ^ 63) mod 2 ^ 64 - 2 ^ 63"

definition float64_to_int :: "real \<Rightarrow> int" where
  "float64_to_int x =
     (let t = (if 0 \<le> x then \<lfloor>x\<rfloor> else \<lceil>x\<rceil>)
      in if - (2 ^ 63) \<le> t \<and> t < 2 ^ 63 then t else - (2 ^ 63))"

text \<open>\<^verbatim>\<open>strings.Split(s, "\n")\<close> and \<^verbatim>\<open>strings.Join(xs, "\n")\<close>, for a one-byte separator.\<close>

fun strings_Split :: "string \<Rightarrow> char \<Rightarrow> string list" where
  "strings_Split [] sep = [[]]"
| "strings_Split (c # cs) sep =
     (if c = sep then [] # strings_Split cs sep
      else (case strings_Split cs sep of
              [] \<Rightarrow> [[c]]
            | l # ls \<Rightarrow> (c # l) # ls))"

fun strings_Join :: "string list \<Rightarrow> char \<Rightarrow> string" where
  "strings_Join [] sep = []"
| "strings_Join [x] sep = x"
| "strings_Join (x # y # ys) sep = x @ sep # strings_Join (y # ys) sep"

definition newline :: char where
  "newline = CHR 0x0A"

section \<open>Built-in handlers (handlers/builtin.go)\<close>

text \<open>\<^verbatim>\<open>handlePing\<close>; the formatted current time is an input.\<close>

definition handlePing :: "string \<Rightarrow> Handler" where
  "handlePing now_rfc3339 params =
     Done (Some [''success'' \<mapsto> VBool True,
                 ''output'' \<mapsto> VString ''pong'',
                 ''time'' \<mapsto> VString now_rfc3339])"

text \<open>
  \<^verbatim>\<open>handleReadFile\<close>. The file system is the function \<open>ioutil_ReadFile\<close>, from a path to
  the error text or the content. A slice expression \<^verbatim>\<open>lines[start:end]\<close> panics unless
  \<open>0 \<le> start \<le> end \<le> cap lines\<close>; the slice that \<^verbatim>\<open>strings.Split\<close> returns has its
  capacity equal to its length.
\<close>

definition read_file_result :: "string \<Rightarrow> msg option exec" where
  "read_file_result content =
     Done (Some [''success'' \<mapsto> VBool True,
                 ''content'' \<mapsto> VString content,
                 ''size'' \<mapsto> VInt (int (length content)),
                 ''total_lines'' \<mapsto> VInt (int (length (strings_Split content newline)))])"

definition handleReadFile :: "(string \<Rightarrow> string + string) \<Rightarrow> Handler" where
  "handleReadFile ioutil_ReadFile params =
     (let path = str_field params ''path'';
          offset = float_field params ''offset'';
          limit = float_field params ''limit''
      in if path = [] then
           Done (Some [''success'' \<mapsto> VBool False, ''error'' \<mapsto> VString ''no path provided''])
         else
           (case ioutil_ReadFile path of
              Inl err \<Rightarrow> Done (Some [''success'' \<mapsto> VBool False, ''error'' \<mapsto> VString err])
            | Inr content \<Rightarrow>
                (let lines = strings_Split content newline;
                     start = float64_to_int offset;
                     n = int (length lines);
                     stop = (if 0 < limit
                             then (let e = wrap64 (start + float64_to_int limit)
                                   in if n < e then n else e)
                             else n)
                 in if 0 < start \<or> 0 < limit then
                      (if start < n then
                         (if 0 \<le> start \<and> start \<le> stop \<and> stop \<le> n then
                            read_file_result
                              (strings_Join (take (nat (stop - start)) (drop (nat start) lines)) newline)
                          else Crash ''slice bounds out of range'')
                       else read_file_result (strings_Join [] newline))
                    else read_file_result content)))"

section \<open>The TCP connection and buffered reads\<close>

text \<open>
  Errors are values. \<open>NetError t\<close> is a \<^verbatim>\<open>net.Error\<close> whose \<^verbatim>\<open>Timeout()\<close> is \<open>t\<close>;
  \<open>Errorf s\<close> is \<^verbatim>\<open>fmt.Errorf(s)\<close> and \<open>Wrap s e\<close> is \<^verbatim>\<open>fmt.Errorf(s + ": %w", e)\<close>.
\<close>

datatype error =
    EOF
  | ErrUnexpectedEOF
  | NetError bool
  | JSONError string
  | Canceled
  | Errorf string
  | Wrap string error

text \<open>
  One side of a connection. \<open>inbound\<close> is what the peer sends, in the pieces in which
  \<^verbatim>\<open>conn.Read\<close> will see it: a segment of bytes, or a read error (a deadline, a reset);
  after the last piece the peer has closed. \<open>outbound\<close> collects the bytes written;
  \<open>write_errors\<close> scripts the outcome of the coming \<^verbatim>\<open>conn.Write\<close> calls (none left: success).
\<close>

datatype net_event = Segment "byte list" | ReadError error

record conn =
  inbound :: "net_event list"
  outbound :: "byte list"
  write_errors :: "error option list"

definition conn_Read :: "nat \<Rightarrow> conn \<Rightarrow> (error + byte list) \<times> conn" where
  "conn_Read n cn =
     (case inbound cn of
        [] \<Rightarrow> (Inl EOF, cn)
      | ReadError e # es \<Rightarrow> (Inl e, cn\<lparr>inbound := es\<rparr>)
      | Segment s # es \<Rightarrow>
          (Inr (take n s),
           cn\<lparr>inbound := (if length s \<le> n then es else Segment (drop n s) # es)\<rparr>))"

definition conn_Write :: "byte list \<Rightarrow> conn \<Rightarrow> error option \<times> conn" where
  "conn_Write bs cn =
     (case write_errors cn of
        [] \<Rightarrow> (None, cn\<lparr>outbound := outbound cn @ bs\<rparr>)
      | None # ws \<Rightarrow> (None, cn\<lparr>outbound := outbound cn @ bs, write_errors := ws\<rparr>)
      | Some e # ws \<Rightarrow> (Some e, cn\<lparr>write_errors := ws\<rparr>))"

text \<open>
  \<^verbatim>\<open>bufio.Reader.Read\<close> for a reader with the default buffer of 4096 bytes; the state of
  the reader is the list of bytes it holds and has not handed out. With an empty buffer it
  performs one read on the connection: directly into the caller's slice when that is at
  least as large as the buffer, into its own buffer otherwise.
\<close>

definition defaultBufSize :: nat where
  "defaultBufSize = 4096"

definition bufio_Read :: "nat \<Rightarrow> byte list \<Rightarrow> conn \<Rightarrow> (error + byte list) \<times> byte list \<times> conn" where
  "bufio_Read n buf cn =
     (if n = 0 then (Inr [], buf, cn)
      else if buf = [] then
        (if defaultBufSize \<le> n then
           (case conn_Read n cn of
              (Inl e, cn') \<Rightarrow> (Inl e, [], cn')
            | (Inr bs, cn') \<Rightarrow> (Inr bs, [], cn'))
         else
           (case conn_Read defaultBufSize cn of
              (Inl e, cn') \<Rightarrow> (Inl e, [], cn')
            | (Inr bs, cn') \<Rightarrow> (Inr (take n bs), drop n bs, cn')))
      else (Inr (take n buf), drop n buf, cn))"

text \<open>
  \<^verbatim>\<open>io.ReadFull(reader, p)\<close> with \<open>m = len p\<close>: the loop of \<^verbatim>\<open>io.ReadAtLeast\<close>, which calls
  \<^verbatim>\<open>Read\<close> until \<open>m\<close> bytes are there or an error comes.
\<close>

function ReadAtLeast :: "nat \<Rightarrow> byte list \<Rightarrow> byte list \<Rightarrow> conn \<Rightarrow> (error + byte list) \<times> byte list \<times> conn" where
  "ReadAtLeast m acc buf cn =
     (if length acc < m then
        (case bufio_Read (m - length acc) buf cn of
           (Inl e, buf', cn') \<Rightarrow>
             (Inl (if acc \<noteq> [] \<and> e = EOF then ErrUnexpectedEOF else e), buf', cn')
         | (Inr bs, buf', cn') \<Rightarrow> ReadAtLeast m (acc @ bs) buf' cn')
      else (Inr acc, buf, cn))"
  by pat_completeness auto

lemma conn_Read_progress:
  "conn_Read n cn = (Inr bs, cn') \<Longrightarrow>
     length bs \<le> n \<and> length (inbound cn') \<le> length (inbound cn) \<and>
     (bs = [] \<longrightarrow> 0 < n \<longrightarrow> length (inbound cn') < length (inbound cn))"
  by (auto simp: conn_Read_def split: list.splits net_event.splits if_splits)

lemma bufio_Read_progress:
  "0 < n \<Longrightarrow> bufio_Read n buf cn = (Inr bs, buf', cn') \<Longrightarrow>
     length bs \<le> n \<and> length (inbound cn') \<le> length (inbound cn) \<and>
     (bs = [] \<longrightarrow> length (inbound cn') < length (inbound cn))"
  by (auto simp: bufio_Read_def defaultBufSize_def
      split: if_splits prod.splits sum.splits dest!: conn_Read_progress)

termination ReadAtLeast
proof (relation "measure (\<lambda>(m, acc, buf, cn). (m - length acc) + length (inbound cn))", goal_cases)
  case 1
  show ?case by simp
next
  case (2 m acc buf cn x y bs buf' cn')
  then have r: "bufio_Read (m - length acc) buf cn = (Inr bs, buf', cn')" by simp
  from 2 have pos: "0 < m - length acc" by simp
  from bufio_Read_progress [OF pos r]
  have a: "length bs \<le> m - length acc"
    and b: "length (inbound cn') \<le> length (inbound cn)"
    and c: "bs = [] \<longrightarrow> length (inbound cn') < length (inbound cn)" by simp_all
  have d: "bs \<noteq> [] \<longrightarrow> 0 < length bs" by simp
  have "(m - (length acc + length bs)) + length (inbound cn') < (m - length acc) + length (inbound cn)"
    using a b c d 2(1) by (cases "bs = []"; simp del: length_greater_0_conv; arith)
  then show ?case by simp
qed

declare ReadAtLeast.simps [simp del]

definition ReadFull :: "nat \<Rightarrow> byte list \<Rightarrow> conn \<Rightarrow> (error + byte list) \<times> byte list \<times> conn" where
  "ReadFull m buf cn = ReadAtLeast m [] buf cn"

text \<open>A read that succeeds returns exactly the bytes asked for.\<close>

lemma ReadAtLeast_length:
  "ReadAtLeast m acc buf cn = (Inr bs, buf', cn') \<Longrightarrow> length acc \<le> m \<Longrightarrow> length bs = m"
proof (induction m acc buf cn rule: ReadAtLeast.induct)
  case (1 m acc buf cn)
  show ?case
  proof (cases "length acc < m")
    case False
    with "1.prems" show ?thesis
      by (simp add: ReadAtLeast.simps)
  next
    case True
    obtain r buf1 cn1 where rd: "bufio_Read (m - length acc) buf cn = (r, buf1, cn1)"
      by (cases "bufio_Read (m - length acc) buf cn")
    show ?thesis
    proof (cases r)
      case (Inl e)
      with True rd "1.prems"(1) show ?thesis
        by (simp add: ReadAtLeast.simps)
    next
      case (Inr got)
      from True have pos: "0 < m - length acc" by simp
      from bufio_Read_progress [OF pos] rd Inr have "length got \<le> m - length acc"
        by simp
      with True have le: "length (acc @ got) \<le> m" by simp
      from True rd Inr "1.prems"(1)
      have "ReadAtLeast m (acc @ got) buf1 cn1 = (Inr bs, buf', cn')"
        by (simp add: ReadAtLeast.simps [of m acc])
      from "1.IH" [OF True _ _ _ this le] rd Inr show ?thesis
        by simp
    qed
  qed
qed

lemma ReadFull_length:
  "ReadFull m buf cn = (Inr bs, buf', cn') \<Longrightarrow> length bs = m"
  using ReadAtLeast_length [of m "[]" buf cn bs buf' cn'] by (simp add: ReadFull_def)

section \<open>Framing (primeclient/client.go)\<close>

unbundle bit_operations_syntax

text \<open>\<^verbatim>\<open>binary.BigEndian.PutUint32\<close> and \<^verbatim>\<open>binary.BigEndian.Uint32\<close>. The latter panics on
  fewer than four bytes; its one caller passes the four bytes of a completed \<open>ReadFull\<close>
  (lemma \<open>ReadFull_length\<close>), so that case is never reached.\<close>

definition PutUint32 :: "32 word \<Rightarrow> byte list" where
  "PutUint32 v = [ucast (drop_bit 24 v), ucast (drop_bit 16 v), ucast (drop_bit 8 v), ucast v]"

fun Uint32 :: "byte list \<Rightarrow> 32 word" where
  "Uint32 (b0 # b1 # b2 # b3 # bs) =
     (ucast b3 OR push_bit 8 (ucast b2) OR push_bit 16 (ucast b1) OR push_bit 24 (ucast b0))"
| "Uint32 bs = 0"

text \<open>\<^verbatim>\<open>json.Marshal\<close> and \<^verbatim>\<open>json.Unmarshal\<close> belong to the Go library: they are inputs.\<close>

record json_codec =
  Marshal :: "msg \<Rightarrow> error + byte list"
  Unmarshal :: "byte list \<Rightarrow> error + msg"

type_synonym Duration = int
type_synonym Time = int

definition Second :: Duration where
  "Second = 1000000000"

definition Minute :: Duration where
  "Minute = 60 * Second"

record Client =
  primeAddress :: string
  registrationKey :: string
  name :: string
  hostname :: string
  capabilities :: "string list"
  isSoulDaemon :: bool
  ultronRoot :: string
  conn :: "conn option"
  daemonID :: string
  reconnectDelay :: Duration
  maxReconnect :: Duration

record Config =
  PrimeAddress :: string
  RegistrationKey :: string
  Name :: string
  Hostname :: string
  Capabilities :: "string list"
  IsSoulDaemon :: bool
  UltronRoot :: string

definition TypeRegistration :: string where "TypeRegistration = ''registration''"
definition TypeRegistrationAck :: string where "TypeRegistrationAck = ''registration_ack''"
definition TypeHeartbeat :: string where "TypeHeartbeat = ''heartbeat''"
definition TypeResult :: string where "TypeResult = ''result''"
definition TypeEvent :: string where "TypeEvent = ''event''"

text \<open>\<^verbatim>\<open>NewClient\<close>; \<open>os_Hostname\<close> is what \<^verbatim>\<open>os.Hostname()\<close> returns.\<close>

definition NewClient :: "string \<Rightarrow> Config \<Rightarrow> Client" where
  "NewClient os_Hostname cfg =
     \<lparr>primeAddress = PrimeAddress cfg,
      registrationKey = RegistrationKey cfg,
      name = Name cfg,
      hostname = (if Hostname cfg = [] then os_Hostname else Hostname cfg),
      capabilities = Capabilities cfg,
      isSoulDaemon = IsSoulDaemon cfg,
      ultronRoot = UltronRoot cfg,
      conn = None,
      daemonID = [],
      reconnectDelay = 1 * Second,
      maxReconnect = 60 * Second\<rparr>"

text \<open>\<^verbatim>\<open>sendMessage\<close>: the length prefix is \<^verbatim>\<open>uint32(len(data))\<close>, big-endian, then the data.\<close>

definition sendMessage :: "json_codec \<Rightarrow> Client \<Rightarrow> msg \<Rightarrow> error option \<times> Client" where
  "sendMessage codec c m =
     (case conn c of
        None \<Rightarrow> (Some (Errorf ''not connected''), c)
      | Some cn \<Rightarrow>
          (case Marshal codec m of
             Inl e \<Rightarrow> (Some (Wrap ''marshal'' e), c)
           | Inr data \<Rightarrow>
               (let prefix = PutUint32 (of_nat (length data))
                in case conn_Write prefix cn of
                     (Some e, cn1) \<Rightarrow> (Some (Wrap ''write length'' e), c\<lparr>conn := Some cn1\<rparr>)
                   | (None, cn1) \<Rightarrow>
                       (case conn_Write data cn1 of
                          (Some e, cn2) \<Rightarrow> (Some (Wrap ''write data'' e), c\<lparr>conn := Some cn2\<rparr>)
                        | (None, cn2) \<Rightarrow> (None, c\<lparr>conn := Some cn2\<rparr>)))))"

text \<open>
  \<^verbatim>\<open>readMessage\<close>. Each call makes its own \<^verbatim>\<open>bufio.NewReader(conn)\<close>, whose buffer
  starts empty; what the reader still holds when the call returns goes with the reader.
\<close>

definition readMessage :: "json_codec \<Rightarrow> Client \<Rightarrow> (error + msg) \<times> Client" where
  "readMessage codec c =
     (case conn c of
        None \<Rightarrow> (Inl (Errorf ''not connected''), c)
      | Some cn \<Rightarrow>
          (case ReadFull 4 [] cn of
             (Inl e, buf1, cn1) \<Rightarrow> (Inl e, c\<lparr>conn := Some cn1\<rparr>)
           | (Inr lengthBuf, buf1, cn1) \<Rightarrow>
               (case ReadFull (unat (Uint32 lengthBuf)) buf1 cn1 of
                  (Inl e, buf2, cn2) \<Rightarrow> (Inl e, c\<lparr>conn := Some cn2\<rparr>)
                | (Inr data, buf2, cn2) \<Rightarrow>
                    (case Unmarshal codec data of
                       Inl e \<Rightarrow> (Inl (Wrap ''unmarshal'' e), c\<lparr>conn := Some cn2\<rparr>)
                     | Inr m \<Rightarrow> (Inr m, c\<lparr>conn := Some cn2\<rparr>)))))"

section \<open>Dispatch, events and heartbeats (primeclient/client.go)\<close>

text \<open>
  \<^verbatim>\<open>handleMessage\<close>. \<open>dispatch_result\<close> is its first part, up to the three assignments
  into the handler's result; an assignment into the nil map panics. The log lines have no
  effect on the state and are left out.
\<close>

definition dispatch_result :: "Registry \<Rightarrow> Client \<Rightarrow> msg \<Rightarrow> msg exec" where
  "dispatch_result reg c m =
     (let msgType = str_field m ''type'';
          commandID = str_field m ''command_id''
      in case Handle reg msgType m of
           Crash p \<Rightarrow> Crash p
         | Done None \<Rightarrow> Crash ''assignment to entry in nil map''
         | Done (Some result) \<Rightarrow>
             Done (result(''command_id'' \<mapsto> VString commandID,
                          ''daemon_id'' \<mapsto> VString (daemonID c),
                          ''type'' \<mapsto> VString TypeResult)))"

definition handleMessage :: "json_codec \<Rightarrow> Registry \<Rightarrow> Client \<Rightarrow> msg \<Rightarrow> Client exec" where
  "handleMessage codec reg c m =
     (case dispatch_result reg c m of
        Crash p \<Rightarrow> Crash p
      | Done result \<Rightarrow> Done (snd (sendMessage codec c result)))"

definition SendEvent :: "json_codec \<Rightarrow> string \<Rightarrow> Client \<Rightarrow> string \<Rightarrow> string \<Rightarrow> msg \<Rightarrow> error option \<times> Client" where
  "SendEvent codec now_rfc3339 c source eventType payload =
     sendMessage codec c
       [''type'' \<mapsto> VString TypeEvent,
        ''daemon_id'' \<mapsto> VString (daemonID c),
        ''source'' \<mapsto> VString source,
        ''event_type'' \<mapsto> VString eventType,
        ''payload'' \<mapsto> VMap payload,
        ''timestamp'' \<mapsto> VString now_rfc3339]"

definition SendAlert :: "json_codec \<Rightarrow> Client \<Rightarrow> string \<Rightarrow> string \<Rightarrow> string \<Rightarrow> (string \<Rightarrow> string option) \<Rightarrow> error option \<times> Client" where
  "SendAlert codec c alertType message severity metadata =
     sendMessage codec c
       [''type'' \<mapsto> VString ''alert'',
        ''daemon_id'' \<mapsto> VString (daemonID c),
        ''alert_type'' \<mapsto> VString alertType,
        ''message'' \<mapsto> VString message,
        ''severity'' \<mapsto> VString severity,
        ''metadata'' \<mapsto> VStringMap metadata]"

text \<open>
  Heartbeats. \<open>pct a b\<close> stands for the \<^verbatim>\<open>float64\<close> computation
  \<^verbatim>\<open>float64(a) / float64(b) * 100\<close>, which is not modelled. \<^verbatim>\<open>cpuPercent\<close> and
  \<^verbatim>\<open>diskPercent\<close> are declared and never assigned: they are zero.
\<close>

record MemStats =
  Alloc :: "64 word"
  Sys :: "64 word"

definition heartbeat_msg :: "(64 word \<Rightarrow> 64 word \<Rightarrow> real) \<Rightarrow> Client \<Rightarrow> MemStats \<Rightarrow> msg" where
  "heartbeat_msg pct c m =
     (let memPercent = pct (Alloc m) (Sys m); cpuPercent = 0; diskPercent = 0
      in [''type'' \<mapsto> VString TypeHeartbeat,
          ''daemon_id'' \<mapsto> VString (daemonID c),
          ''cpu_percent'' \<mapsto> VFloat cpuPercent,
          ''memory_percent'' \<mapsto> VFloat memPercent,
          ''disk_percent'' \<mapsto> VFloat diskPercent,
          ''active_tasks'' \<mapsto> VInt 0])"

definition sendHeartbeat :: "json_codec \<Rightarrow> (64 word \<Rightarrow> 64 word \<Rightarrow> real) \<Rightarrow> Client \<Rightarrow> MemStats \<Rightarrow> error option \<times> Client" where
  "sendHeartbeat codec pct c m = sendMessage codec c (heartbeat_msg pct c m)"

section \<open>Connecting and reconnecting (primeclient/client.go)\<close>

text \<open>\<^verbatim>\<open>sendRegistration\<close>. The error texts leave out the formatted value.\<close>

definition sendRegistration :: "json_codec \<Rightarrow> Client \<Rightarrow> error option \<times> Client" where
  "sendRegistration codec c =
     (case sendMessage codec c
             [''type'' \<mapsto> VString TypeRegistration,
              ''registration_key'' \<mapsto> VString (registrationKey c),
              ''name'' \<mapsto> VString (name c),
              ''hostname'' \<mapsto> VString (hostname c),
              ''capabilities'' \<mapsto> VStrings (capabilities c),
              ''is_soul_daemon'' \<mapsto> VBool (isSoulDaemon c),
              ''ultron_root'' \<mapsto> VString (ultronRoot c)] of
        (Some e, c1) \<Rightarrow> (Some e, c1)
      | (None, c1) \<Rightarrow>
          (case readMessage codec c1 of
             (Inl e, c2) \<Rightarrow> (Some (Wrap ''reading ack'' e), c2)
           | (Inr ack, c2) \<Rightarrow>
               if ack ''type'' \<noteq> Some (VString TypeRegistrationAck) then
                 (Some (Errorf ''unexpected message type''), c2)
               else if \<not> bool_field ack ''success'' then
                 (Some (Errorf ''registration rejected''), c2)
               else
                 (None, (case ack ''daemon_id'' of
                           Some (VString i) \<Rightarrow> c2\<lparr>daemonID := i\<rparr>
                         | _ \<Rightarrow> c2))))"

text \<open>
  \<^verbatim>\<open>messageLoop\<close>. The first argument counts how often the loop still finds the context
  not done. Each message is dispatched in a goroutine of its own; here a dispatch runs to
  its end before the next read. \<^verbatim>\<open>c.conn.SetReadDeadline\<close> panics on a nil connection.
\<close>

definition is_timeout :: "error \<Rightarrow> bool" where
  "is_timeout e = (case e of NetError t \<Rightarrow> t | _ \<Rightarrow> False)"

fun messageLoop :: "json_codec \<Rightarrow> Registry \<Rightarrow> nat \<Rightarrow> Client \<Rightarrow> (error \<times> Client) exec" where
  "messageLoop codec reg 0 c = Done (Canceled, c)"
| "messageLoop codec reg (Suc k) c =
     (case conn c of
        None \<Rightarrow> Crash ''nil pointer dereference''
      | Some cn \<Rightarrow>
          (case readMessage codec c of
             (Inl e, c1) \<Rightarrow>
               if e = EOF then Done (Errorf ''connection closed'', c1)
               else if is_timeout e then messageLoop codec reg k c1
               else Done (Wrap ''read error'' e, c1)
           | (Inr m, c1) \<Rightarrow>
               (case handleMessage codec reg c1 m of
                  Crash p \<Rightarrow> Crash p
                | Done c2 \<Rightarrow> messageLoop codec reg k c2)))"

text \<open>
  One attempt of \<^verbatim>\<open>connectOnce\<close>: \<open>dial\<close> is the outcome of \<^verbatim>\<open>DialContext\<close> (\<open>None\<close>: it
  failed), \<open>polls\<close> is the argument of \<open>messageLoop\<close>. The deferred function closes the
  connection and sets \<^verbatim>\<open>c.conn\<close> to nil. The heartbeat goroutine is left out of this
  function: \<open>connectOnce_serving\<close> below is the same attempt with the heartbeats
  interleaved.
\<close>

record attempt =
  dial :: "conn option"
  polls :: nat

definition connectOnce :: "json_codec \<Rightarrow> Registry \<Rightarrow> Client \<Rightarrow> attempt \<Rightarrow> (error \<times> Client) exec" where
  "connectOnce codec reg c a =
     (case dial a of
        None \<Rightarrow> Done (Wrap ''dial failed'' (NetError False), c)
      | Some cn \<Rightarrow>
          (let c1 = c\<lparr>conn := Some cn\<rparr>;
               c2 = c1\<lparr>reconnectDelay := 1 * Second\<rparr>
           in case sendRegistration codec c2 of
                (Some e, c3) \<Rightarrow> Done (Wrap ''registration failed'' e, c3\<lparr>conn := None\<rparr>)
              | (None, c3) \<Rightarrow>
                  (case messageLoop codec reg (polls a) c3 of
                     Crash p \<Rightarrow> Crash p
                   | Done (e, c4) \<Rightarrow> Done (e, c4\<lparr>conn := None\<rparr>))))"

text \<open>
  \<^verbatim>\<open>Connect\<close>, over the attempts made before the context is cancelled. The result lists
  the delays waited in full, in order. \<^verbatim>\<open>time.Duration\<close> is a 64-bit integer of
  nanoseconds: the doubling wraps.
\<close>

fun Connect :: "json_codec \<Rightarrow> Registry \<Rightarrow> attempt list \<Rightarrow> Client \<Rightarrow> (Duration list \<times> Client) exec" where
  "Connect codec reg [] c = Done ([], c)"
| "Connect codec reg (a # as) c =
     (case connectOnce codec reg c a of
        Crash p \<Rightarrow> Crash p
      | Done (err, c1) \<Rightarrow>
          if err = Canceled then Done ([], c1)
          else
            (let d = reconnectDelay c1;
                 d2 = wrap64 (d * 2);
                 c2 = c1\<lparr>reconnectDelay := (if maxReconnect c1 < d2 then maxReconnect c1 else d2)\<rparr>
             in case Connect codec reg as c2 of
                  Crash p \<Rightarrow> Crash p
                | Done (waits, c3) \<Rightarrow> Done (d # waits, c3)))"

text \<open>
  The heartbeat goroutine. \<^verbatim>\<open>time.NewTicker(d)\<close>, created at \<open>t0\<close>, delivers its \<open>j\<close>-th
  tick (counted from 0) at \<open>t0 + (j + 1) d\<close>; \<open>ticks_before d t0 r\<close> is the number of ticks
  it delivers strictly before the time \<open>r\<close>.
\<close>

definition NewTicker :: "Duration \<Rightarrow> Time \<Rightarrow> nat \<Rightarrow> Time" where
  "NewTicker d t0 j = t0 + (int j + 1) * d"

definition ticks_before :: "Duration \<Rightarrow> Time \<Rightarrow> Time \<Rightarrow> nat" where
  "ticks_before d t0 r = (if 0 < d \<and> t0 < r then nat ((r - t0 - 1) div d) else 0)"

text \<open>
  What is seen on the wire: the bytes that the connection of \<open>c'\<close> has sent beyond those
  of \<open>c\<close>.
\<close>

definition appended :: "Client \<Rightarrow> Client \<Rightarrow> byte list" where
  "appended c c' =
     (case (conn c, conn c') of
        (Some cn, Some cn') \<Rightarrow> drop (length (outbound cn)) (outbound cn')
      | _ \<Rightarrow> [])"

text \<open>
  \<^verbatim>\<open>heartbeatLoop\<close>. Each tick received from \<^verbatim>\<open>ticker.C\<close> is one call of
  \<^verbatim>\<open>c.sendHeartbeat()\<close>, whose error is only logged. \<open>stats t\<close> is what
  \<^verbatim>\<open>runtime.ReadMemStats\<close> reports at the time \<open>t\<close>. \<open>heartbeats\<close> runs the loop body for
  the ticks given; \<open>heartbeatLoop codec pct stats t0 k n\<close> runs it for the ticks \<open>k\<close>, ...,
  \<open>n - 1\<close> of the loop's ticker, made at \<open>t0\<close> with a period of 30 seconds. Beside the
  client, the result lists for each tick its time and the bytes that the call put on
  the wire.
\<close>

fun heartbeats :: "json_codec \<Rightarrow> (64 word \<Rightarrow> 64 word \<Rightarrow> real) \<Rightarrow> (Time \<Rightarrow> MemStats) \<Rightarrow> Time list \<Rightarrow> Client
    \<Rightarrow> (Time \<times> byte list) list \<times> Client" where
  "heartbeats codec pct stats [] c = ([], c)"
| "heartbeats codec pct stats (t # ts) c =
     (let c1 = snd (sendHeartbeat codec pct c (stats t));
          (sent, c2) = heartbeats codec pct stats ts c1
      in ((t, appended c c1) # sent, c2))"

definition heartbeatLoop :: "json_codec \<Rightarrow> (64 word \<Rightarrow> 64 word \<Rightarrow> real) \<Rightarrow> (Time \<Rightarrow> MemStats) \<Rightarrow> Time \<Rightarrow> nat \<Rightarrow> nat \<Rightarrow> Client
    \<Rightarrow> (Time \<times> byte list) list \<times> Client" where
  "heartbeatLoop codec pct stats t0 k n c =
     heartbeats codec pct stats (map (NewTicker (30 * Second) t0) [k..<n]) c"

text \<open>
  One iteration of \<^verbatim>\<open>messageLoop\<close>, taken when the context is not done: \<open>Inl\<close> is the
  loop returning (or the process going down), \<open>Inr\<close> its going on to the next iteration.
\<close>

definition messageLoop_body :: "json_codec \<Rightarrow> Registry \<Rightarrow> Client \<Rightarrow> (error \<times> Client) exec + Client" where
  "messageLoop_body codec reg c =
     (case conn c of
        None \<Rightarrow> Inl (Crash ''nil pointer dereference'')
      | Some cn \<Rightarrow>
          (case readMessage codec c of
             (Inl e, c1) \<Rightarrow>
               if e = EOF then Inl (Done (Errorf ''connection closed'', c1))
               else if is_timeout e then Inr c1
               else Inl (Done (Wrap ''read error'' e, c1))
           | (Inr m, c1) \<Rightarrow>
               (case handleMessage codec reg c1 m of
                  Crash p \<Rightarrow> Inl (Crash p)
                | Done c2 \<Rightarrow> Inr c2)))"

text \<open>
  The message loop with the heartbeat goroutine beside it, both on the one connection.
  The list gives, for each \<^verbatim>\<open>readMessage\<close> the loop makes before the context is cancelled,
  the time at which it returns; \<open>prev\<close> is the time of the previous one. The heartbeats of
  the ticks that come before a read returns are written before the message it returns is
  dispatched; \<open>k\<close> counts the ticks already served. The result is what \<^verbatim>\<open>messageLoop\<close>
  returns, the heartbeats in order, and the time at which the loop returned.
\<close>

fun serve :: "json_codec \<Rightarrow> Registry \<Rightarrow> (64 word \<Rightarrow> 64 word \<Rightarrow> real) \<Rightarrow> (Time \<Rightarrow> MemStats) \<Rightarrow> Time \<Rightarrow> nat \<Rightarrow> Time
    \<Rightarrow> Time list \<Rightarrow> Client \<Rightarrow> ((error \<times> Client) \<times> (Time \<times> byte list) list \<times> Time) exec" where
  "serve codec reg pct stats t0 k prev [] c = Done ((Canceled, c), [], prev)"
| "serve codec reg pct stats t0 k prev (r # rs) c =
     (let n = max k (ticks_before (30 * Second) t0 r);
          (sent, c1) = heartbeatLoop codec pct stats t0 k n c
      in case messageLoop_body codec reg c1 of
           Inl (Crash p) \<Rightarrow> Crash p
         | Inl (Done res) \<Rightarrow> Done (res, sent, r)
         | Inr c2 \<Rightarrow>
             (case serve codec reg pct stats t0 n r rs c2 of
                Crash p \<Rightarrow> Crash p
              | Done (res, sent', t) \<Rightarrow> Done (res, sent @ sent', t)))"

text \<open>
  \<^verbatim>\<open>connectOnce\<close> with its heartbeat goroutine. \<open>registered_at\<close> is the time at which
  \<^verbatim>\<open>sendRegistration\<close> returns: if it returned no error, \<^verbatim>\<open>go c.heartbeatLoop(heartbeatCtx)\<close>
  makes the ticker then. The deferred \<^verbatim>\<open>cancelHeartbeat\<close> stops the heartbeats when the
  message loop returns. An attempt that does not reach the message loop sends no
  heartbeat and ends at \<open>registered_at\<close>.
\<close>

record session =
  registered_at :: Time
  read_times :: "Time list"
  memstats_at :: "Time \<Rightarrow> MemStats"

definition connectOnce_serving :: "json_codec \<Rightarrow> Registry \<Rightarrow> (64 word \<Rightarrow> 64 word \<Rightarrow> real) \<Rightarrow> Client \<Rightarrow> conn option \<Rightarrow> session
    \<Rightarrow> ((error \<times> Client) \<times> (Time \<times> byte list) list \<times> Time) exec" where
  "connectOnce_serving codec reg pct c dialled s =
     (case dialled of
        None \<Rightarrow> Done ((Wrap ''dial failed'' (NetError False), c), [], registered_at s)
      | Some cn \<Rightarrow>
          (let c1 = c\<lparr>conn := Some cn\<rparr>;
               c2 = c1\<lparr>reconnectDelay := 1 * Second\<rparr>
           in case sendRegistration codec c2 of
                (Some e, c3) \<Rightarrow>
                  Done ((Wrap ''registration failed'' e, c3\<lparr>conn := None\<rparr>), [], registered_at s)
              | (None, c3) \<Rightarrow>
                  (case serve codec reg pct (memstats_at s) (registered_at s) 0 (registered_at s)
                          (read_times s) c3 of
                     Crash p \<Rightarrow> Crash p
                   | Done ((e, c4), sent, t) \<Rightarrow> Done ((e, c4\<lparr>conn := None\<rparr>), sent, t))))"

section \<open>Resource monitor (emitters)\<close>

text \<open>
  A \<^verbatim>\<open>time.Time\<close> is its count of nanoseconds since the zero time; \<^verbatim>\<open>t.Sub(u)\<close> is the
  difference, held to the range of a \<^verbatim>\<open>Duration\<close>. \<open>gb x\<close> stands for the \<^verbatim>\<open>float64\<close>
  computation \<^verbatim>\<open>float64(x) / 1024 / 1024 / 1024\<close>.
\<close>

definition Time_Sub :: "Time \<Rightarrow> Time \<Rightarrow> Duration" where
  "Time_Sub t u = max (- (2 ^ 63)) (min (2 ^ 63 - 1) (t - u))"

record Event =
  Source :: string
  Type :: string
  Payload :: msg
  Timestamp :: Time

record ResourceMonitor =
  daemonName :: string
  checkInterval :: Duration
  cpuThreshold :: real
  memThreshold :: real
  diskThreshold :: real
  lastCPUAlert :: Time
  lastMemAlert :: Time
  lastDiskAlert :: Time
  alertCooldown :: Duration
  running :: bool

definition NewResourceMonitor :: "string \<Rightarrow> ResourceMonitor" where
  "NewResourceMonitor dn =
     \<lparr>daemonName = dn,
      checkInterval = 30 * Second,
      cpuThreshold = 80,
      memThreshold = 85,
      diskThreshold = 90,
      lastCPUAlert = 0,
      lastMemAlert = 0,
      lastDiskAlert = 0,
      alertCooldown = 5 * Minute,
      running = False\<rparr>"

definition SetThresholds :: "ResourceMonitor \<Rightarrow> real \<Rightarrow> real \<Rightarrow> real \<Rightarrow> ResourceMonitor" where
  "SetThresholds r cpu mem disk = r\<lparr>cpuThreshold := cpu, memThreshold := mem, diskThreshold := disk\<rparr>"

text \<open>What one tick observes: the clock, the memory statistics, and \<^verbatim>\<open>syscall.Statfs("/")\<close>
  (\<open>None\<close>: it returned an error). \<^verbatim>\<open>Bsize\<close> is given as converted by \<^verbatim>\<open>uint64\<close>.\<close>

record Statfs_t =
  Blocks :: "64 word"
  Bfree :: "64 word"
  Bsize :: "64 word"

record sample =
  now :: Time
  memStats :: MemStats
  statfs :: "Statfs_t option"

text \<open>\<^verbatim>\<open>check\<close>; the events are those passed to \<^verbatim>\<open>manager.Emit\<close>, in order.\<close>

definition check :: "(64 word \<Rightarrow> 64 word \<Rightarrow> real) \<Rightarrow> (64 word \<Rightarrow> real) \<Rightarrow> ResourceMonitor \<Rightarrow> sample
    \<Rightarrow> Event list \<times> ResourceMonitor" where
  "check pct gb r s =
     (let memPercent = pct (Alloc (memStats s)) (Sys (memStats s));
          (ev1, r1) =
            (if memThreshold r < memPercent \<and> alertCooldown r < Time_Sub (now s) (lastMemAlert r) then
               ([\<lparr>Source = ''daemon:'' @ daemonName r,
                  Type = ''memory_high'',
                  Payload = [''percent'' \<mapsto> VFloat memPercent,
                             ''threshold'' \<mapsto> VFloat (memThreshold r),
                             ''alloc'' \<mapsto> VUint64 (Alloc (memStats s)),
                             ''sys'' \<mapsto> VUint64 (Sys (memStats s))],
                  Timestamp = now s\<rparr>],
                r\<lparr>lastMemAlert := now s\<rparr>)
             else ([], r))
      in case statfs s of
           None \<Rightarrow> (ev1, r1)
         | Some stat \<Rightarrow>
             (let diskTotal = Blocks stat * Bsize stat;
                  diskFree = Bfree stat * Bsize stat;
                  diskUsed = diskTotal - diskFree;
                  diskPercent = pct diskUsed diskTotal
              in if diskThreshold r1 < diskPercent
                    \<and> alertCooldown r1 < Time_Sub (now s) (lastDiskAlert r1) then
                   (ev1 @ [\<lparr>Source = ''daemon:'' @ daemonName r1,
                            Type = ''disk_high'',
                            Payload = [''percent'' \<mapsto> VFloat diskPercent,
                                       ''threshold'' \<mapsto> VFloat (diskThreshold r1),
                                       ''total_gb'' \<mapsto> VFloat (gb diskTotal),
                                       ''free_gb'' \<mapsto> VFloat (gb diskFree)],
                            Timestamp = now s\<rparr>],
                    r1\<lparr>lastDiskAlert := now s\<rparr>)
                 else (ev1, r1)))"

text \<open>\<^verbatim>\<open>Start\<close>: one \<open>check\<close> per tick of the ticker, until the context is done.\<close>

fun check_ticks :: "(64 word \<Rightarrow> 64 word \<Rightarrow> real) \<Rightarrow> (64 word \<Rightarrow> real) \<Rightarrow> sample list \<Rightarrow> ResourceMonitor
    \<Rightarrow> Event list \<times> ResourceMonitor" where
  "check_ticks pct gb [] r = ([], r)"
| "check_ticks pct gb (s # ss) r =
     (let (es, r1) = check pct gb r s;
          (es', r2) = check_ticks pct gb ss r1
      in (es @ es', r2))"

definition Start :: "(64 word \<Rightarrow> 64 word \<Rightarrow> real) \<Rightarrow> (64 word \<Rightarrow> real) \<Rightarrow> sample list \<Rightarrow> ResourceMonitor
    \<Rightarrow> Event list \<times> ResourceMonitor" where
  "Start pct gb samples r = check_ticks pct gb samples (r\<lparr>running := True\<rparr>)"

section \<open>Notions used in the statements and proofs\<close>

text \<open>The bytes a connection delivers before its first read error.\<close>

fun avail :: "net_event list \<Rightarrow> byte list" where
  "avail [] = []"
| "avail (Segment s # es) = s @ avail es"
| "avail (ReadError e # es) = []"

text \<open>Two events are spaced when, if of one type, the later is more than \<open>cd\<close> after the
  earlier.\<close>

definition spaced :: "Duration \<Rightarrow> Event \<Rightarrow> Event \<Rightarrow> bool" where
  "spaced cd e e' = (Type e = Type e' \<longrightarrow> cd < Timestamp e' - Timestamp e)"

text \<open>The delay after \<open>i\<close> doublings, in closed form.\<close>

definition backoff :: "nat \<Rightarrow> Duration" where
  "backoff i = min (2 ^ i) 60 * Second"



section \<open>Sending\<close>

lemma sendMessage_conn_None:
  "conn c = None \<Longrightarrow> sendMessage codec c m = (Some (Errorf ''not connected''), c)"
  by (simp add: sendMessage_def)

lemma sendMessage_writes_frame:
  assumes "conn c = Some cn" and "write_errors cn = []" and "Marshal codec m = Inr data"
  shows "sendMessage codec c m
           = (None, c\<lparr>conn := Some (cn\<lparr>outbound := outbound cn @ PutUint32 (of_nat (length data)) @ data\<rparr>)\<rparr>)"
  using assms by (simp add: sendMessage_def conn_Write_def Let_def)

lemma sendMessage_keeps_conn:
  "(conn (snd (sendMessage codec c m)) = None) = (conn c = None)"
  by (auto simp: sendMessage_def Let_def split: option.splits sum.splits prod.splits)

lemma sendMessage_keeps_fields:
  "daemonID (snd (sendMessage codec c m)) = daemonID c"
  "reconnectDelay (snd (sendMessage codec c m)) = reconnectDelay c"
  "maxReconnect (snd (sendMessage codec c m)) = maxReconnect c"
  by (auto simp: sendMessage_def Let_def split: option.splits sum.splits prod.splits)

text \<open>
  Claim C10. A send made while the client holds no connection returns the error
  "not connected" and leaves the client as it was: nothing is written, nothing panics.
  This holds for \<open>sendMessage\<close> and so for \<open>SendEvent\<close>, \<open>SendAlert\<close> and the heartbeat;
  a client fresh from \<open>NewClient\<close> is in that state.
\<close>

theorem send_without_connection:
  assumes "conn c = None"
  shows "sendMessage codec c m = (Some (Errorf ''not connected''), c)
       \<and> SendEvent codec ts c source eventType payload = (Some (Errorf ''not connected''), c)
       \<and> SendAlert codec c alertType message severity metadata = (Some (Errorf ''not connected''), c)
       \<and> sendHeartbeat codec pct c ms = (Some (Errorf ''not connected''), c)"
  using assms
  by (simp add: SendEvent_def SendAlert_def sendHeartbeat_def sendMessage_conn_None)

theorem send_without_connection_witness:
  "conn (NewClient ''macbook''
          \<lparr>PrimeAddress = ''localhost:50051'', RegistrationKey = ''k'', Name = ''macbook'',
           Hostname = [], Capabilities = [''shell''], IsSoulDaemon = False, UltronRoot = []\<rparr>) = None
   \<and> SendEvent \<lparr>Marshal = (\<lambda>m. Inr [0x7B, 0x7D]), Unmarshal = (\<lambda>d. Inr Map.empty)\<rparr>
        ''2024-01-01T00:00:00Z''
        (NewClient ''macbook''
          \<lparr>PrimeAddress = ''localhost:50051'', RegistrationKey = ''k'', Name = ''macbook'',
           Hostname = [], Capabilities = [''shell''], IsSoulDaemon = False, UltronRoot = []\<rparr>)
        ''daemon:macbook'' ''disk_high'' Map.empty
     = (Some (Errorf ''not connected''),
        NewClient ''macbook''
          \<lparr>PrimeAddress = ''localhost:50051'', RegistrationKey = ''k'', Name = ''macbook'',
           Hostname = [], Capabilities = [''shell''], IsSoulDaemon = False, UltronRoot = []\<rparr>)"
  using send_without_connection
    [of "NewClient ''macbook''
          \<lparr>PrimeAddress = ''localhost:50051'', RegistrationKey = ''k'', Name = ''macbook'',
           Hostname = [], Capabilities = [''shell''], IsSoulDaemon = False, UltronRoot = []\<rparr>"
        "\<lparr>Marshal = (\<lambda>m. Inr [0x7B, 0x7D]), Unmarshal = (\<lambda>d. Inr Map.empty)\<rparr>"]
  by (simp add: NewClient_def)

section \<open>Dispatch\<close>

lemma messageLoop_unknown_command:
  assumes "handlers reg t = None" and "conn c \<noteq> None"
    and "readMessage codec c = (Inr m, c1)" and "str_field m ''type'' = t"
  shows "messageLoop codec reg (Suc k) c =
           messageLoop codec reg k
             (snd (sendMessage codec c1
                     [''success'' \<mapsto> VBool False,
                      ''error'' \<mapsto> VString (''unknown command type: '' @ t),
                      ''command_id'' \<mapsto> VString (str_field m ''command_id''),
                      ''daemon_id'' \<mapsto> VString (daemonID c1),
                      ''type'' \<mapsto> VString ''result'']))"
  using assms
  by (auto simp: Handle_def handleMessage_def dispatch_result_def TypeResult_def)

text \<open>
  Claim C3. For a command type \<open>t\<close> with no handler in the registry, \<open>Handle\<close> returns
  exactly the result with \<open>success\<close> false and \<open>error\<close> "unknown command type: " followed by
  \<open>t\<close>. The dispatcher treats it as any result: it adds the three fields and sends it; it
  does not crash, a send never turns a connection into none, and the message loop goes on
  to its next read: the session stays open.
\<close>

theorem Handle_unknown_command:
  assumes "handlers reg t = None"
  shows "Handle reg t p =
           Done (Some [''success'' \<mapsto> VBool False,
                       ''error'' \<mapsto> VString (''unknown command type: '' @ t)])
       \<and> (str_field m ''type'' = t \<longrightarrow>
            handleMessage codec reg c m =
              Done (snd (sendMessage codec c
                     [''success'' \<mapsto> VBool False,
                      ''error'' \<mapsto> VString (''unknown command type: '' @ t),
                      ''command_id'' \<mapsto> VString (str_field m ''command_id''),
                      ''daemon_id'' \<mapsto> VString (daemonID c),
                      ''type'' \<mapsto> VString ''result''])))
       \<and> (\<forall>r. (conn (snd (sendMessage codec c r)) = None) = (conn c = None))
       \<and> (conn c \<noteq> None \<longrightarrow> readMessage codec c = (Inr m, c1) \<longrightarrow> str_field m ''type'' = t \<longrightarrow>
            messageLoop codec reg (Suc k) c =
              messageLoop codec reg k
                (snd (sendMessage codec c1
                        [''success'' \<mapsto> VBool False,
                         ''error'' \<mapsto> VString (''unknown command type: '' @ t),
                         ''command_id'' \<mapsto> VString (str_field m ''command_id''),
                         ''daemon_id'' \<mapsto> VString (daemonID c1),
                         ''type'' \<mapsto> VString ''result''])))"
  using assms messageLoop_unknown_command [OF assms, of c codec m c1 k]
  by (simp add: Handle_def handleMessage_def dispatch_result_def TypeResult_def sendMessage_keeps_conn)

theorem Handle_unknown_command_witness:
  "handlers NewRegistry ''teleport'' = None
   \<and> Handle NewRegistry ''teleport''
        [''type'' \<mapsto> VString ''teleport'', ''command_id'' \<mapsto> VString ''c-3''] =
       Done (Some [''success'' \<mapsto> VBool False,
                   ''error'' \<mapsto> VString ''unknown command type: teleport''])"
  using Handle_unknown_command [of NewRegistry "''teleport''"]
  by (simp add: NewRegistry_def)

text \<open>
  Claim C1. When the handler for a request returns a result, whatever its \<open>success\<close>
  and \<open>error\<close> fields say, the dispatcher sends that result with \<open>daemon_id\<close> set to the
  agent's, \<open>type\<close> to "result" and \<open>command_id\<close> to what \<^verbatim>\<open>msg["command_id"].(string)\<close>
  yields: the request's \<open>command_id\<close> when that is a string, the empty string when the
  request has none or one that is not a string. On a connection that accepts the writes the
  frame put on the wire is the four-byte length and the encoding of that result.
\<close>

theorem result_carries_correlation:
  assumes "Handle reg (str_field m ''type'') m = Done (Some res)"
  shows "\<exists>r. dispatch_result reg c m = Done r
           \<and> r ''command_id'' = Some (VString (str_field m ''command_id''))
           \<and> (\<forall>cid. m ''command_id'' = Some (VString cid) \<longrightarrow> r ''command_id'' = Some (VString cid))
           \<and> ((\<forall>cid. m ''command_id'' \<noteq> Some (VString cid)) \<longrightarrow> r ''command_id'' = Some (VString []))
           \<and> r ''daemon_id'' = Some (VString (daemonID c))
           \<and> r ''type'' = Some (VString ''result'')
           \<and> r ''success'' = res ''success''
           \<and> r ''error'' = res ''error''
           \<and> handleMessage codec reg c m = Done (snd (sendMessage codec c r))
           \<and> (\<forall>cn data. conn c = Some cn \<longrightarrow> write_errors cn = [] \<longrightarrow> Marshal codec r = Inr data \<longrightarrow>
                 handleMessage codec reg c m =
                   Done (c\<lparr>conn := Some (cn\<lparr>outbound :=
                           outbound cn @ PutUint32 (of_nat (length data)) @ data\<rparr>)\<rparr>))"
proof -
  let ?r = "res(''command_id'' \<mapsto> VString (str_field m ''command_id''),
                ''daemon_id'' \<mapsto> VString (daemonID c),
                ''type'' \<mapsto> VString TypeResult)"
  have d: "dispatch_result reg c m = Done ?r"
    using assms by (simp add: dispatch_result_def)
  have h: "handleMessage codec reg c m = Done (snd (sendMessage codec c ?r))"
    using d by (simp add: handleMessage_def)
  have w: "handleMessage codec reg c m =
             Done (c\<lparr>conn := Some (cn\<lparr>outbound := outbound cn @ PutUint32 (of_nat (length data)) @ data\<rparr>)\<rparr>)"
    if "conn c = Some cn" "write_errors cn = []" "Marshal codec ?r = Inr data" for cn data
    using sendMessage_writes_frame [OF that] h by simp
  have s: "m ''command_id'' = Some (VString cid) \<Longrightarrow> str_field m ''command_id'' = cid" for cid
    by (simp add: str_field_def)
  have n: "(\<forall>cid. m ''command_id'' \<noteq> Some (VString cid)) \<Longrightarrow> str_field m ''command_id'' = []"
    by (auto simp: str_field_def split: option.splits go_value.splits)
  show ?thesis
  proof (intro exI [of _ ?r] conjI allI impI)
    show "dispatch_result reg c m = Done ?r" by (rule d)
    show "handleMessage codec reg c m = Done (snd (sendMessage codec c ?r))" by (rule h)
    show "?r ''command_id'' = Some (VString (str_field m ''command_id''))" by simp
    show "?r ''command_id'' = Some (VString cid)" if "m ''command_id'' = Some (VString cid)" for cid
      using s [OF that] by simp
    show "?r ''command_id'' = Some (VString [])" if "\<forall>cid. m ''command_id'' \<noteq> Some (VString cid)"
      using n [OF that] by simp
    show "?r ''daemon_id'' = Some (VString (daemonID c))" by simp
    show "?r ''type'' = Some (VString ''result'')" by (simp add: TypeResult_def)
    show "?r ''success'' = res ''success''" by simp
    show "?r ''error'' = res ''error''" by simp
    show "handleMessage codec reg c m =
             Done (c\<lparr>conn := Some (cn\<lparr>outbound := outbound cn @ PutUint32 (of_nat (length data)) @ data\<rparr>)\<rparr>)"
      if "conn c = Some cn" "write_errors cn = []" "Marshal codec ?r = Inr data" for cn data
      using that by (rule w)
  qed
qed

theorem result_carries_correlation_witness:
  "handleMessage
     \<lparr>Marshal = (\<lambda>r. case r ''command_id'' of
                        Some (VString s) \<Rightarrow> Inr (map (\<lambda>ch. of_nat (of_char ch)) s)
                      | _ \<Rightarrow> Inl (JSONError ''unsupported'')),
      Unmarshal = (\<lambda>d. Inr Map.empty)\<rparr>
     (Register NewRegistry ''ping'' (handlePing ''2024-01-01T00:00:00Z''))
     \<lparr>primeAddress = ''localhost:50051'', registrationKey = ''k'', name = ''macbook'',
      hostname = ''macbook'', capabilities = [], isSoulDaemon = False, ultronRoot = [],
      conn = Some \<lparr>inbound = [], outbound = [], write_errors = []\<rparr>, daemonID = ''d-1'',
      reconnectDelay = 1000000000, maxReconnect = 60000000000\<rparr>
     [''type'' \<mapsto> VString ''ping'', ''command_id'' \<mapsto> VString ''c-1'']
   = Done \<lparr>primeAddress = ''localhost:50051'', registrationKey = ''k'', name = ''macbook'',
      hostname = ''macbook'', capabilities = [], isSoulDaemon = False, ultronRoot = [],
      conn = Some \<lparr>inbound = [], outbound = [0, 0, 0, 3, 0x63, 0x2D, 0x31], write_errors = []\<rparr>,
      daemonID = ''d-1'', reconnectDelay = 1000000000, maxReconnect = 60000000000\<rparr>"
proof -
  let ?codec = "\<lparr>Marshal = (\<lambda>r. case r ''command_id'' of
                        Some (VString s) \<Rightarrow> Inr (map (\<lambda>ch. of_nat (of_char ch)) s)
                      | _ \<Rightarrow> Inl (JSONError ''unsupported'')),
      Unmarshal = (\<lambda>d. Inr Map.empty)\<rparr>"
  let ?m = "[''type'' \<mapsto> VString ''ping'', ''command_id'' \<mapsto> VString ''c-1'']"
  let ?reg = "Register NewRegistry ''ping'' (handlePing ''2024-01-01T00:00:00Z'')"
  let ?cn = "\<lparr>inbound = [], outbound = [], write_errors = []\<rparr>"
  let ?c = "\<lparr>primeAddress = ''localhost:50051'', registrationKey = ''k'', name = ''macbook'',
      hostname = ''macbook'', capabilities = [], isSoulDaemon = False, ultronRoot = [],
      conn = Some ?cn, daemonID = ''d-1'',
      reconnectDelay = 1000000000, maxReconnect = 60000000000\<rparr>"
  let ?res = "[''success'' \<mapsto> VBool True, ''output'' \<mapsto> VString ''pong'',
               ''time'' \<mapsto> VString ''2024-01-01T00:00:00Z'']"
  have h: "Handle ?reg (str_field ?m ''type'') ?m = Done (Some ?res)"
    by (simp add: Handle_def Register_def NewRegistry_def handlePing_def str_field_def)
  from result_carries_correlation [OF h, of ?c ?codec]
  obtain r where id: "r ''command_id'' = Some (VString (str_field ?m ''command_id''))"
    and w: "\<forall>cn data. conn ?c = Some cn \<longrightarrow> write_errors cn = [] \<longrightarrow> Marshal ?codec r = Inr data \<longrightarrow>
                 handleMessage ?codec ?reg ?c ?m =
                   Done (?c\<lparr>conn := Some (cn\<lparr>outbound :=
                           outbound cn @ PutUint32 (of_nat (length data)) @ data\<rparr>)\<rparr>)"
    by blast
  from id have enc: "Marshal ?codec r = Inr [0x63, 0x2D, 0x31]"
    by (simp add: str_field_def)
  have "conn ?c = Some ?cn" "write_errors ?cn = []"
    by simp_all
  from w [rule_format, OF this enc] show ?thesis
    by (simp add: PutUint32_def)
qed

text \<open>
  A request whose \<open>command_id\<close> is the number 7 is answered with the \<open>command_id\<close> "":
  the result does not carry the \<open>command_id\<close> of its request.
\<close>

theorem numeric_command_id_counterexample:
  "[''type'' \<mapsto> VString ''ping'', ''command_id'' \<mapsto> VFloat 7] ''command_id'' = Some (VFloat 7)
   \<and> (case dispatch_result (Register NewRegistry ''ping'' (handlePing ''2024-01-01T00:00:00Z''))
             \<lparr>primeAddress = ''localhost:50051'', registrationKey = ''k'', name = ''macbook'',
              hostname = ''macbook'', capabilities = [], isSoulDaemon = False, ultronRoot = [],
              conn = Some \<lparr>inbound = [], outbound = [], write_errors = []\<rparr>, daemonID = ''d-1'',
              reconnectDelay = 1000000000, maxReconnect = 60000000000\<rparr>
             [''type'' \<mapsto> VString ''ping'', ''command_id'' \<mapsto> VFloat 7] of
         Done r \<Rightarrow> r ''command_id''
       | Crash p \<Rightarrow> None) = Some (VString [])"
  by (simp add: dispatch_result_def Handle_def Register_def NewRegistry_def handlePing_def
      str_field_def)

text \<open>
  Claim C5. A handler that panics takes the process down: neither \<open>Handle\<close> nor the
  dispatcher recovers. The built-in \<^verbatim>\<open>read_file\<close> handler panics on a readable file
  when the request has a negative \<open>offset\<close> and a positive \<open>limit\<close>: it slices the
  lines from index -1.
\<close>

theorem read_file_negative_offset:
  assumes "ioutil_ReadFile ''/etc/hostname'' = Inr content"
  shows "handleMessage codec (Register reg ''read_file'' (handleReadFile ioutil_ReadFile)) c
           [''type'' \<mapsto> VString ''read_file'',
            ''command_id'' \<mapsto> VString ''c-1'',
            ''path'' \<mapsto> VString ''/etc/hostname'',
            ''offset'' \<mapsto> VFloat (- 1),
            ''limit'' \<mapsto> VFloat 1]
         = Crash ''slice bounds out of range''"
proof -
  have start: "float64_to_int (- 1) = - 1"
    by (simp add: float64_to_int_def ceiling_eq_iff)
  have limit: "float64_to_int 1 = 1"
    by (simp add: float64_to_int_def)
  show ?thesis
    using assms
    by (simp add: handleMessage_def dispatch_result_def Handle_def Register_def handleReadFile_def
        str_field_def float_field_def start limit Let_def)
qed

theorem read_file_negative_offset_witness:
  "handleMessage \<lparr>Marshal = (\<lambda>m. Inr [0x7B, 0x7D]), Unmarshal = (\<lambda>d. Inr Map.empty)\<rparr>
     (Register NewRegistry ''read_file'' (handleReadFile (\<lambda>p. Inr ''alfred'')))
     \<lparr>primeAddress = ''localhost:50051'', registrationKey = ''k'', name = ''macbook'',
      hostname = ''macbook'', capabilities = [], isSoulDaemon = False, ultronRoot = [],
      conn = Some \<lparr>inbound = [], outbound = [], write_errors = []\<rparr>, daemonID = ''d-1'',
      reconnectDelay = 1000000000, maxReconnect = 60000000000\<rparr>
     [''type'' \<mapsto> VString ''read_file'',
      ''command_id'' \<mapsto> VString ''c-1'',
      ''path'' \<mapsto> VString ''/etc/hostname'',
      ''offset'' \<mapsto> VFloat (- 1),
      ''limit'' \<mapsto> VFloat 1]
   = Crash ''slice bounds out of range''"
  using read_file_negative_offset [of "\<lambda>p. Inr ''alfred''" "''alfred''"]
  by simp

section \<open>Reading frames\<close>

lemma conn_Read_avail:
  assumes "avail (inbound cn) \<noteq> []"
  shows "\<exists>bs cn'. conn_Read n cn = (Inr bs, cn') \<and> length bs \<le> n
           \<and> bs @ avail (inbound cn') = avail (inbound cn)
           \<and> outbound cn' = outbound cn \<and> write_errors cn' = write_errors cn"
proof (cases "inbound cn")
  case Nil
  with assms show ?thesis by simp
next
  case (Cons ev es)
  with assms obtain s where ev: "ev = Segment s" by (cases ev) auto
  show ?thesis
    using Cons ev by (simp add: conn_Read_def)
qed

lemma bufio_Read_avail:
  assumes "0 < n" and "buf @ avail (inbound cn) \<noteq> []"
  shows "\<exists>bs buf' cn'. bufio_Read n buf cn = (Inr bs, buf', cn') \<and> length bs \<le> n
           \<and> bs @ buf' @ avail (inbound cn') = buf @ avail (inbound cn)
           \<and> outbound cn' = outbound cn \<and> write_errors cn' = write_errors cn"
proof (cases "buf = []")
  case False
  with assms show ?thesis by (simp add: bufio_Read_def)
next
  case True
  with assms have av: "avail (inbound cn) \<noteq> []" by simp
  show ?thesis
  proof (cases "defaultBufSize \<le> n")
    case big: True
    from conn_Read_avail [OF av, of n] obtain bs cn' where
      "conn_Read n cn = (Inr bs, cn')" "length bs \<le> n" "bs @ avail (inbound cn') = avail (inbound cn)"
      "outbound cn' = outbound cn" "write_errors cn' = write_errors cn" by blast
    with True big assms show ?thesis by (simp add: bufio_Read_def)
  next
    case small: False
    from conn_Read_avail [OF av, of defaultBufSize] obtain bs cn' where
      "conn_Read defaultBufSize cn = (Inr bs, cn')" "bs @ avail (inbound cn') = avail (inbound cn)"
      "outbound cn' = outbound cn" "write_errors cn' = write_errors cn" by blast
    with True small assms show ?thesis
      by (simp add: bufio_Read_def) (metis append.assoc append_take_drop_id)
  qed
qed

lemma ReadAtLeast_avail:
  "length acc \<le> m \<Longrightarrow> m - length acc \<le> length (buf @ avail (inbound cn)) \<Longrightarrow>
     \<exists>buf' cn'. ReadAtLeast m acc buf cn
                  = (Inr (acc @ take (m - length acc) (buf @ avail (inbound cn))), buf', cn')
       \<and> buf' @ avail (inbound cn') = drop (m - length acc) (buf @ avail (inbound cn))
       \<and> outbound cn' = outbound cn \<and> write_errors cn' = write_errors cn"
proof (induction m acc buf cn rule: ReadAtLeast.induct)
  case (1 m acc buf cn)
  show ?case
  proof (cases "length acc < m")
    case False
    with "1.prems" show ?thesis
      by (subst ReadAtLeast.simps) simp
  next
    case True
    let ?n = "m - length acc"
    from True have pos: "0 < ?n" by simp
    from True "1.prems" have ne: "buf @ avail (inbound cn) \<noteq> []" by auto
    from bufio_Read_avail [OF pos ne] obtain bs buf1 cn1 where
      rd: "bufio_Read ?n buf cn = (Inr bs, buf1, cn1)"
      and len: "length bs \<le> ?n"
      and split: "bs @ buf1 @ avail (inbound cn1) = buf @ avail (inbound cn)"
      and out: "outbound cn1 = outbound cn" "write_errors cn1 = write_errors cn"
      by blast
    from len True have l1: "length (acc @ bs) \<le> m" by simp
    from split have "length bs + length (buf1 @ avail (inbound cn1)) = length (buf @ avail (inbound cn))"
      by (metis length_append)
    with "1.prems" have l2: "m - length (acc @ bs) \<le> length (buf1 @ avail (inbound cn1))"
      by simp
    from "1.IH" [OF True rd [symmetric] refl refl l1 l2]
    obtain buf' cn' where
      r: "ReadAtLeast m (acc @ bs) buf1 cn1
            = (Inr ((acc @ bs) @ take (m - length (acc @ bs)) (buf1 @ avail (inbound cn1))), buf', cn')"
      and rest: "buf' @ avail (inbound cn') = drop (m - length (acc @ bs)) (buf1 @ avail (inbound cn1))"
      and out': "outbound cn' = outbound cn1" "write_errors cn' = write_errors cn1"
      by blast
    have t: "bs @ take (m - length (acc @ bs)) (buf1 @ avail (inbound cn1))
              = take ?n (buf @ avail (inbound cn))"
      using len split [symmetric] by (simp del: append_assoc)
    have d: "drop (m - length (acc @ bs)) (buf1 @ avail (inbound cn1))
              = drop ?n (buf @ avail (inbound cn))"
      using len split [symmetric] by (simp del: append_assoc)
    have "ReadAtLeast m acc buf cn = ReadAtLeast m (acc @ bs) buf1 cn1"
      using True rd by (subst ReadAtLeast.simps) simp
    with r t d rest out out' show ?thesis
      by simp
  qed
qed

lemma Uint32_PutUint32: "Uint32 (PutUint32 w @ bs) = w"
proof -
  have "ucast (ucast w :: byte) OR push_bit 8 (ucast (ucast (drop_bit 8 w) :: byte))
          OR push_bit 16 (ucast (ucast (drop_bit 16 w) :: byte))
          OR push_bit 24 (ucast (ucast (drop_bit 24 w) :: byte)) = w" (is "?l = w")
  proof (rule bit_word_eqI)
    fix n assume n: "n < LENGTH(32)"
    consider "n < 8" | "8 \<le> n" "n < 16" | "16 \<le> n" "n < 24" | "24 \<le> n" "n < 32"
      using n by fastforce
    then show "bit ?l n = bit w n"
      by cases (auto simp: bit_simps)
  qed
  then show ?thesis
    by (simp add: PutUint32_def)
qed

lemma length_PutUint32: "length (PutUint32 w) = 4"
  by (simp add: PutUint32_def)

lemma readMessage_complete_frame:
  assumes c: "conn c = Some cn"
    and av: "avail (inbound cn) = PutUint32 (of_nat (length data)) @ data @ rest"
    and len: "length data < 2 ^ 32"
  shows "\<exists>cn'. readMessage codec c =
           (case Unmarshal codec data of
              Inl e \<Rightarrow> (Inl (Wrap ''unmarshal'' e), c\<lparr>conn := Some cn'\<rparr>)
            | Inr m \<Rightarrow> (Inr m, c\<lparr>conn := Some cn'\<rparr>))
         \<and> outbound cn' = outbound cn \<and> write_errors cn' = write_errors cn"
proof -
  let ?p = "PutUint32 (of_nat (length data))"
  from ReadAtLeast_avail [of "[]" 4 "[]" cn]
  obtain buf1 cn1 where r1: "ReadFull 4 [] cn = (Inr ?p, buf1, cn1)"
    and rest1: "buf1 @ avail (inbound cn1) = data @ rest"
    and o1: "outbound cn1 = outbound cn" "write_errors cn1 = write_errors cn"
    unfolding av by (auto simp: ReadFull_def length_PutUint32)
  have n: "unat (Uint32 ?p) = length data"
    using Uint32_PutUint32 [of "of_nat (length data)" "[]"] len by (simp add: unat_of_nat)
  from ReadAtLeast_avail [of "[]" "length data" buf1 cn1]
  obtain buf2 cn2 where r2: "ReadFull (length data) buf1 cn1 = (Inr data, buf2, cn2)"
    and o2: "outbound cn2 = outbound cn1" "write_errors cn2 = write_errors cn1"
    unfolding rest1 by (auto simp: ReadFull_def)
  have "readMessage codec c =
           (case Unmarshal codec data of
              Inl e \<Rightarrow> (Inl (Wrap ''unmarshal'' e), c\<lparr>conn := Some cn2\<rparr>)
            | Inr m \<Rightarrow> (Inr m, c\<lparr>conn := Some cn2\<rparr>))"
    using c r1 r2 n by (simp add: readMessage_def split: sum.splits)
  with o1 o2 show ?thesis
    by (intro exI [of _ cn2]) simp
qed

text \<open>One frame, written by \<open>sendMessage\<close> and delivered alone, is read back as the object sent,
  provided the JSON codec itself round-trips.\<close>

lemma frame_round_trip:
  assumes "Marshal codec m = Inr data" and "Unmarshal codec data = Inr m"
    and "length data < 2 ^ 32"
    and "conn s = Some \<lparr>inbound = [], outbound = [], write_errors = []\<rparr>"
    and "sendMessage codec s m = (e, s')" and "conn s' = Some cn'"
    and "conn r = Some \<lparr>inbound = [Segment (outbound cn')], outbound = [], write_errors = []\<rparr>"
  shows "e = None \<and> fst (readMessage codec r) = Inr m"
proof -
  from sendMessage_writes_frame [OF assms(4) _ assms(1)] assms(5,6)
  have e: "e = None" and out: "outbound cn' = PutUint32 (of_nat (length data)) @ data"
    by auto
  have "avail (inbound \<lparr>inbound = [Segment (outbound cn')], outbound = [], write_errors = []\<rparr>)
          = PutUint32 (of_nat (length data)) @ data @ []"
    by (simp add: out)
  from readMessage_complete_frame [OF assms(7) this assms(3), of codec] assms(2) e
  show ?thesis by auto
qed

text \<open>
  Claim C2. The encoder writes the four-byte big-endian length and then the JSON bytes,
  and a reader that finds one complete frame decodes it (\<open>readMessage_complete_frame\<close>).
  A stream of frames is not read back in order: when two frames reach the socket before
  the first read, the reader that \<open>readMessage\<close> creates for the first call takes both
  into its buffer and is dropped with the second frame in it. With two frames of the
  object \<^verbatim>\<open>{}\<close> in one segment, the first read returns what the decoder makes of the
  first, and the second read finds the connection at its end.
\<close>

theorem second_frame_is_lost:
  "readMessage codec
     (c\<lparr>conn := Some \<lparr>inbound = [Segment ([0, 0, 0, 2, 0x7B, 0x7D] @ [0, 0, 0, 2, 0x7B, 0x7D])],
                       outbound = out, write_errors = we\<rparr>\<rparr>)
     = (case Unmarshal codec [0x7B, 0x7D] of
          Inl e \<Rightarrow> Inl (Wrap ''unmarshal'' e)
        | Inr m \<Rightarrow> Inr m,
        c\<lparr>conn := Some \<lparr>inbound = [], outbound = out, write_errors = we\<rparr>\<rparr>)
   \<and> readMessage codec (c\<lparr>conn := Some \<lparr>inbound = [], outbound = out, write_errors = we\<rparr>\<rparr>)
     = (Inl EOF, c\<lparr>conn := Some \<lparr>inbound = [], outbound = out, write_errors = we\<rparr>\<rparr>)"
  by (simp add: readMessage_def ReadFull_def ReadAtLeast.simps bufio_Read_def conn_Read_def
      defaultBufSize_def split: sum.splits)

text \<open>
  Claim C6. \<open>readMessage\<close> has no maximum message size. A frame whose length prefix is
  above 64 MiB (and, as every 32-bit prefix, below \<open>2 ^ 32\<close>), and whose bytes arrive with
  no read error (an expired deadline, a reset) before the last of them, is read in full and
  handed to the JSON decoder. If the decoder accepts the bytes, the read returns the
  decoded message and the message loop dispatches it and goes on to its next read; if
  the decoder rejects them, the read returns the decoder's error and the message loop
  returns it, wrapped as a read error. The frame is not rejected for its size.
\<close>

theorem oversized_frame_is_decoded:
  assumes "conn c = Some cn"
    and "avail (inbound cn) = PutUint32 (of_nat (length data)) @ data @ rest"
    and "64 * 1024 * 1024 < length data" and "length data < 2 ^ 32"
  shows "\<exists>cn'. readMessage codec c =
                  (case Unmarshal codec data of
                     Inl e \<Rightarrow> (Inl (Wrap ''unmarshal'' e), c\<lparr>conn := Some cn'\<rparr>)
                   | Inr m \<Rightarrow> (Inr m, c\<lparr>conn := Some cn'\<rparr>))
             \<and> messageLoop codec reg (Suc k) c =
                  (case Unmarshal codec data of
                     Inl e \<Rightarrow> Done (Wrap ''read error'' (Wrap ''unmarshal'' e), c\<lparr>conn := Some cn'\<rparr>)
                   | Inr m \<Rightarrow>
                       (case handleMessage codec reg (c\<lparr>conn := Some cn'\<rparr>) m of
                          Crash p \<Rightarrow> Crash p
                        | Done c2 \<Rightarrow> messageLoop codec reg k c2))"
proof -
  from readMessage_complete_frame [OF assms(1,2,4), of codec]
  obtain cn' where r: "readMessage codec c =
                  (case Unmarshal codec data of
                     Inl e \<Rightarrow> (Inl (Wrap ''unmarshal'' e), c\<lparr>conn := Some cn'\<rparr>)
                   | Inr m \<Rightarrow> (Inr m, c\<lparr>conn := Some cn'\<rparr>))"
    by blast
  have "messageLoop codec reg (Suc k) c =
                  (case Unmarshal codec data of
                     Inl e \<Rightarrow> Done (Wrap ''read error'' (Wrap ''unmarshal'' e), c\<lparr>conn := Some cn'\<rparr>)
                   | Inr m \<Rightarrow>
                       (case handleMessage codec reg (c\<lparr>conn := Some cn'\<rparr>) m of
                          Crash p \<Rightarrow> Crash p
                        | Done c2 \<Rightarrow> messageLoop codec reg k c2))"
    using assms(1) r by (simp add: is_timeout_def split: sum.splits)
  with r show ?thesis
    by blast
qed

theorem oversized_frame_is_decoded_witness:
  "\<exists>cn'. messageLoop
         \<lparr>Marshal = (\<lambda>m. Inr [0x7B, 0x7D]), Unmarshal = (\<lambda>d. Inl (JSONError ''invalid character''))\<rparr>
         NewRegistry (Suc 0)
         \<lparr>primeAddress = ''localhost:50051'', registrationKey = ''k'', name = ''macbook'',
          hostname = ''macbook'', capabilities = [], isSoulDaemon = False, ultronRoot = [],
          conn = Some \<lparr>inbound = [Segment ([4, 0, 0, 1] @ replicate 67108865 0x20)],
                       outbound = [], write_errors = []\<rparr>,
          daemonID = ''d-1'', reconnectDelay = 1000000000, maxReconnect = 60000000000\<rparr>
   = Done (Wrap ''read error'' (Wrap ''unmarshal'' (JSONError ''invalid character'')),
        \<lparr>primeAddress = ''localhost:50051'', registrationKey = ''k'', name = ''macbook'',
          hostname = ''macbook'', capabilities = [], isSoulDaemon = False, ultronRoot = [],
          conn = Some cn',
          daemonID = ''d-1'', reconnectDelay = 1000000000, maxReconnect = 60000000000\<rparr>)"
proof -
  let ?data = "replicate 67108865 (0x20 :: byte)"
  let ?cn = "\<lparr>inbound = [Segment ([4, 0, 0, 1] @ ?data)], outbound = [], write_errors = []\<rparr>"
  let ?c = "\<lparr>primeAddress = ''localhost:50051'', registrationKey = ''k'', name = ''macbook'',
          hostname = ''macbook'', capabilities = [], isSoulDaemon = False, ultronRoot = [],
          conn = Some ?cn,
          daemonID = ''d-1'', reconnectDelay = 1000000000, maxReconnect = 60000000000\<rparr>"
  let ?codec = "\<lparr>Marshal = (\<lambda>m. Inr [0x7B, 0x7D]), Unmarshal = (\<lambda>d. Inl (JSONError ''invalid character''))\<rparr>"
  have p: "PutUint32 (of_nat (length ?data)) = [4, 0, 0, 1]"
    by (simp add: PutUint32_def)
  have h1: "conn ?c = Some ?cn" by simp
  have h2: "avail (inbound ?cn) = PutUint32 (of_nat (length ?data)) @ ?data @ []"
    unfolding p by simp
  have h3: "64 * 1024 * 1024 < length ?data" by simp
  have h4: "length ?data < 2 ^ 32" by simp
  from oversized_frame_is_decoded [OF h1 h2 h3 h4, of ?codec NewRegistry 0]
  obtain cn' where "messageLoop ?codec NewRegistry (Suc 0) ?c =
      Done (Wrap ''read error'' (Wrap ''unmarshal'' (JSONError ''invalid character'')), ?c\<lparr>conn := Some cn'\<rparr>)"
    by auto
  then show ?thesis
    by (intro exI [of _ cn']) simp
qed

text \<open>
  The claim as stated fails for a frame of 64 MiB + 1 bytes, an opening brace, spaces
  and a closing brace, which \<^verbatim>\<open>json.Unmarshal\<close> decodes to the empty object: the read
  returns that object.
\<close>

theorem oversized_frame_counterexample:
  "fst (readMessage
         \<lparr>Marshal = (\<lambda>m. Inr [0x7B, 0x7D]),
          Unmarshal = (\<lambda>d. if d = 0x7B # replicate 67108863 0x20 @ [0x7D] then Inr Map.empty
                            else Inl (JSONError ''invalid character''))\<rparr>
         \<lparr>primeAddress = ''localhost:50051'', registrationKey = ''k'', name = ''macbook'',
          hostname = ''macbook'', capabilities = [], isSoulDaemon = False, ultronRoot = [],
          conn = Some \<lparr>inbound = [Segment ([4, 0, 0, 1] @ 0x7B # replicate 67108863 0x20 @ [0x7D])],
                       outbound = [], write_errors = []\<rparr>,
          daemonID = ''d-1'', reconnectDelay = 1000000000, maxReconnect = 60000000000\<rparr>)
   = Inr Map.empty"
proof -
  let ?data = "0x7B # replicate 67108863 (0x20 :: byte) @ [0x7D]"
  let ?cn = "\<lparr>inbound = [Segment ([4, 0, 0, 1] @ ?data)], outbound = [], write_errors = []\<rparr>"
  let ?c = "\<lparr>primeAddress = ''localhost:50051'', registrationKey = ''k'', name = ''macbook'',
          hostname = ''macbook'', capabilities = [], isSoulDaemon = False, ultronRoot = [],
          conn = Some ?cn,
          daemonID = ''d-1'', reconnectDelay = 1000000000, maxReconnect = 60000000000\<rparr>"
  let ?codec = "\<lparr>Marshal = (\<lambda>m. Inr [0x7B, 0x7D]),
          Unmarshal = (\<lambda>d. if d = ?data then Inr Map.empty
                            else Inl (JSONError ''invalid character''))\<rparr>"
  have p: "PutUint32 (of_nat (length ?data)) = [4, 0, 0, 1]"
    by (simp add: PutUint32_def)
  have h1: "conn ?c = Some ?cn" by simp
  have h2: "avail (inbound ?cn) = PutUint32 (of_nat (length ?data)) @ ?data @ []"
    unfolding p by simp
  have h4: "length ?data < 2 ^ 32" by simp
  from readMessage_complete_frame [OF h1 h2 h4, of ?codec]
  obtain cn' where "readMessage ?codec ?c = (Inr Map.empty, ?c\<lparr>conn := Some cn'\<rparr>)"
    by auto
  then show ?thesis by simp
qed

section \<open>Reconnecting\<close>

lemma readMessage_keeps_delay:
  "reconnectDelay (snd (readMessage codec c)) = reconnectDelay c"
  "maxReconnect (snd (readMessage codec c)) = maxReconnect c"
  by (auto simp: readMessage_def split: option.splits sum.splits prod.splits)

lemma sendRegistration_keeps_delay:
  "reconnectDelay (snd (sendRegistration codec c)) = reconnectDelay c"
  "maxReconnect (snd (sendRegistration codec c)) = maxReconnect c"
proof -
  obtain e c1 where s: "sendMessage codec c
             [''type'' \<mapsto> VString TypeRegistration,
              ''registration_key'' \<mapsto> VString (registrationKey c),
              ''name'' \<mapsto> VString (name c),
              ''hostname'' \<mapsto> VString (hostname c),
              ''capabilities'' \<mapsto> VStrings (capabilities c),
              ''is_soul_daemon'' \<mapsto> VBool (isSoulDaemon c),
              ''ultron_root'' \<mapsto> VString (ultronRoot c)] = (e, c1)"
    by (cases "sendMessage codec c
             [''type'' \<mapsto> VString TypeRegistration,
              ''registration_key'' \<mapsto> VString (registrationKey c),
              ''name'' \<mapsto> VString (name c),
              ''hostname'' \<mapsto> VString (hostname c),
              ''capabilities'' \<mapsto> VStrings (capabilities c),
              ''is_soul_daemon'' \<mapsto> VBool (isSoulDaemon c),
              ''ultron_root'' \<mapsto> VString (ultronRoot c)]") auto
  obtain r c2 where r: "readMessage codec c1 = (r, c2)"
    by (cases "readMessage codec c1") auto
  from s have c1: "reconnectDelay c1 = reconnectDelay c" "maxReconnect c1 = maxReconnect c"
    using sendMessage_keeps_fields(2,3) by (metis snd_conv)+
  from r have c2: "reconnectDelay c2 = reconnectDelay c1" "maxReconnect c2 = maxReconnect c1"
    using readMessage_keeps_delay by (metis snd_conv)+
  show "reconnectDelay (snd (sendRegistration codec c)) = reconnectDelay c"
    using s r c1 c2 by (auto simp: sendRegistration_def split: option.splits sum.splits go_value.splits)
  show "maxReconnect (snd (sendRegistration codec c)) = maxReconnect c"
    using s r c1 c2 by (auto simp: sendRegistration_def split: option.splits sum.splits go_value.splits)
qed

lemma handleMessage_keeps_delay:
  "handleMessage codec reg c m = Done c' \<Longrightarrow>
     reconnectDelay c' = reconnectDelay c \<and> maxReconnect c' = maxReconnect c"
  by (auto simp: handleMessage_def sendMessage_keeps_fields split: exec.splits)

lemma messageLoop_keeps_delay:
  "messageLoop codec reg k c = Done (e, c') \<Longrightarrow>
     reconnectDelay c' = reconnectDelay c \<and> maxReconnect c' = maxReconnect c"
proof (induction k arbitrary: c)
  case 0
  then show ?case by simp
next
  case (Suc k)
  obtain r c1 where r: "readMessage codec c = (r, c1)"
    by (cases "readMessage codec c") auto
  then have c1: "reconnectDelay c1 = reconnectDelay c" "maxReconnect c1 = maxReconnect c"
    using readMessage_keeps_delay by (metis snd_conv)+
  show ?case
  proof (cases r)
    case (Inl err)
    with Suc.prems r c1 Suc.IH [of c1] show ?thesis
      by (auto split: option.splits if_splits)
  next
    case (Inr m)
    with Suc.prems r obtain c2 where h: "handleMessage codec reg c1 m = Done c2"
      and l: "messageLoop codec reg k c2 = Done (e, c')"
      by (auto split: option.splits exec.splits)
    from handleMessage_keeps_delay [OF h] Suc.IH [OF l] c1 show ?thesis by simp
  qed
qed

lemma connectOnce_dial_failed:
  "dial a = None \<Longrightarrow> connectOnce codec reg c a = Done (Wrap ''dial failed'' (NetError False), c)"
  by (simp add: connectOnce_def)

lemma connectOnce_dialed:
  assumes "dial a = Some cn" and "connectOnce codec reg c a = Done (e, c1)"
  shows "reconnectDelay c1 = Second \<and> maxReconnect c1 = maxReconnect c"
proof -
  let ?c2 = "c\<lparr>conn := Some cn, reconnectDelay := 1 * Second\<rparr>"
  obtain r c3 where r: "sendRegistration codec ?c2 = (r, c3)"
    by (cases "sendRegistration codec ?c2") auto
  then have c3: "reconnectDelay c3 = Second" "maxReconnect c3 = maxReconnect c"
    using sendRegistration_keeps_delay [of codec ?c2] by simp_all
  show ?thesis
  proof (cases r)
    case (Some err)
    with assms r c3 show ?thesis by (auto simp: connectOnce_def)
  next
    case None
    with assms r obtain c4 where l: "messageLoop codec reg (polls a) c3 = Done (e, c4)"
      and c1: "c1 = c4\<lparr>conn := None\<rparr>"
      by (auto simp: connectOnce_def split: exec.splits)
    from messageLoop_keeps_delay [OF l] c3 c1 show ?thesis by simp
  qed
qed

lemma backoff_step:
  "(if 60 * Second < wrap64 (backoff k * 2) then 60 * Second else wrap64 (backoff k * 2)) = backoff (Suc k)"
proof -
  have b: "0 < backoff k" "backoff k \<le> 60 * Second"
    by (simp_all add: backoff_def Second_def min_def)
  then have w: "wrap64 (backoff k * 2) = backoff k * 2"
    by (simp add: wrap64_def Second_def)
  show ?thesis
  proof (cases "(2::int) ^ k \<le> 60")
    case True
    then show ?thesis
      unfolding w by (simp add: backoff_def Second_def min_def)
  next
    case False
    then show ?thesis
      unfolding w by (simp add: backoff_def Second_def min_def)
  qed
qed

lemma Connect_dial_failures:
  assumes "reconnectDelay c = backoff k" and "maxReconnect c = 60 * Second"
  shows "Connect codec reg (replicate n \<lparr>dial = None, polls = p\<rparr>) c
           = Done (map (\<lambda>i. backoff (k + i)) [0..<n], c\<lparr>reconnectDelay := backoff (k + n)\<rparr>)"
  using assms
proof (induction n arbitrary: c k)
  case 0
  then show ?case by simp
next
  case (Suc n)
  let ?c2 = "c\<lparr>reconnectDelay := backoff (Suc k)\<rparr>"
  have "Connect codec reg (replicate n \<lparr>dial = None, polls = p\<rparr>) ?c2
           = Done (map (\<lambda>i. backoff (Suc k + i)) [0..<n], ?c2\<lparr>reconnectDelay := backoff (Suc k + n)\<rparr>)"
    using Suc.prems by (intro Suc.IH) simp_all
  moreover have "map (\<lambda>i. backoff (k + i)) [0..<Suc n] = backoff k # map (\<lambda>i. backoff (Suc k + i)) [0..<n]"
    by (simp add: upt_conv_Cons map_Suc_upt [symmetric] del: upt_Suc)
  moreover have "Connect codec reg (replicate (Suc n) \<lparr>dial = None, polls = p\<rparr>) c
      = (case Connect codec reg (replicate n \<lparr>dial = None, polls = p\<rparr>)
               (c\<lparr>reconnectDelay :=
                    (if maxReconnect c < wrap64 (reconnectDelay c * 2) then maxReconnect c
                     else wrap64 (reconnectDelay c * 2))\<rparr>) of
           Crash x \<Rightarrow> Crash x
         | Done (waits, c3) \<Rightarrow> Done (reconnectDelay c # waits, c3))"
    by (simp add: connectOnce_dial_failed Let_def split del: if_split)
  moreover have "(if maxReconnect c < wrap64 (reconnectDelay c * 2) then maxReconnect c
                  else wrap64 (reconnectDelay c * 2)) = backoff (Suc k)"
    by (simp only: Suc.prems backoff_step)
  ultimately show ?case
    using Suc.prems by (simp del: upt_Suc replicate_Suc)
qed

text \<open>
  Claim C4. After \<open>n\<close> failed dials in a row a fresh client has waited 1, 2, 4, 8, 16, 32,
  60, 60, ... seconds. The delay goes back to one second as soon as a dial succeeds, before
  the registration: whatever the delay was, the wait after an attempt that reached the
  controller is one second (so after a successful \<^verbatim>\<open>registration_ack\<close> too), and failed
  dials after it wait 2, 4, ... seconds again.
\<close>

theorem reconnect_backoff:
  "(\<exists>c'. Connect codec reg (replicate n \<lparr>dial = None, polls = p\<rparr>) (NewClient h cfg)
           = Done (map (\<lambda>i. min (2 ^ i) 60 * Second) [0..<n], c'))
   \<and> (dial a = Some cn \<longrightarrow> maxReconnect c = 60 * Second \<longrightarrow>
        connectOnce codec reg c a = Done (e, c1) \<longrightarrow> e \<noteq> Canceled \<longrightarrow>
        (\<exists>c'. Connect codec reg (a # replicate n \<lparr>dial = None, polls = p\<rparr>) c
               = Done (map (\<lambda>i. min (2 ^ i) 60 * Second) [0..<Suc n], c')))"
proof (intro conjI impI)
  have "reconnectDelay (NewClient h cfg) = backoff 0" "maxReconnect (NewClient h cfg) = 60 * Second"
    by (simp_all add: NewClient_def backoff_def)
  from Connect_dial_failures [OF this, of codec reg n p]
  show "\<exists>c'. Connect codec reg (replicate n \<lparr>dial = None, polls = p\<rparr>) (NewClient h cfg)
           = Done (map (\<lambda>i. min (2 ^ i) 60 * Second) [0..<n], c')"
    by (simp add: backoff_def)
next
  assume d: "dial a = Some cn" and mx: "maxReconnect c = 60 * Second"
    and co: "connectOnce codec reg c a = Done (e, c1)" and e: "e \<noteq> Canceled"
  from connectOnce_dialed [OF d co] mx
  have c1: "reconnectDelay c1 = backoff 0" "maxReconnect c1 = 60 * Second"
    by (simp_all add: backoff_def)
  let ?c2 = "c1\<lparr>reconnectDelay := backoff (Suc 0)\<rparr>"
  have next_delay: "(if maxReconnect c1 < wrap64 (reconnectDelay c1 * 2) then maxReconnect c1
                  else wrap64 (reconnectDelay c1 * 2)) = backoff (Suc 0)"
    by (simp only: c1 backoff_step)
  have rest: "Connect codec reg (replicate n \<lparr>dial = None, polls = p\<rparr>) ?c2
           = Done (map (\<lambda>i. backoff (Suc 0 + i)) [0..<n], ?c2\<lparr>reconnectDelay := backoff (Suc 0 + n)\<rparr>)"
    using c1 by (intro Connect_dial_failures) simp_all
  have "Connect codec reg (a # replicate n \<lparr>dial = None, polls = p\<rparr>) c
      = (case Connect codec reg (replicate n \<lparr>dial = None, polls = p\<rparr>)
               (c1\<lparr>reconnectDelay :=
                    (if maxReconnect c1 < wrap64 (reconnectDelay c1 * 2) then maxReconnect c1
                     else wrap64 (reconnectDelay c1 * 2))\<rparr>) of
           Crash x \<Rightarrow> Crash x
         | Done (waits, c3) \<Rightarrow> Done (reconnectDelay c1 # waits, c3))"
    using co e by (simp add: Let_def split del: if_split)
  also have "\<dots> = Done (backoff 0 # map (\<lambda>i. backoff (Suc 0 + i)) [0..<n],
                        ?c2\<lparr>reconnectDelay := backoff (Suc 0 + n)\<rparr>)"
    unfolding next_delay rest using c1 by simp
  also have "backoff 0 # map (\<lambda>i. backoff (Suc 0 + i)) [0..<n] = map backoff [0..<Suc n]"
    by (simp add: upt_conv_Cons map_Suc_upt [symmetric] del: upt_Suc)
  finally show "\<exists>c'. Connect codec reg (a # replicate n \<lparr>dial = None, polls = p\<rparr>) c
               = Done (map (\<lambda>i. min (2 ^ i) 60 * Second) [0..<Suc n], c')"
    by (simp add: backoff_def del: upt_Suc)
qed

theorem reconnect_backoff_witness:
  "(\<exists>c'. Connect \<lparr>Marshal = (\<lambda>m. Inr [0x7B, 0x7D]),
                    Unmarshal = (\<lambda>d. Inr [''type'' \<mapsto> VString ''registration_ack'',
                                          ''success'' \<mapsto> VBool True,
                                          ''daemon_id'' \<mapsto> VString ''d-1''])\<rparr>
            NewRegistry (replicate 9 \<lparr>dial = None, polls = 0\<rparr>)
            (NewClient ''macbook''
              \<lparr>PrimeAddress = ''localhost:50051'', RegistrationKey = ''k'', Name = ''macbook'',
               Hostname = [], Capabilities = [], IsSoulDaemon = False, UltronRoot = []\<rparr>)
         = Done ([1000000000, 2000000000, 4000000000, 8000000000, 16000000000, 32000000000,
                  60000000000, 60000000000, 60000000000], c'))
   \<and> (\<exists>c'. Connect \<lparr>Marshal = (\<lambda>m. Inr [0x7B, 0x7D]),
                    Unmarshal = (\<lambda>d. Inr [''type'' \<mapsto> VString ''registration_ack'',
                                          ''success'' \<mapsto> VBool True,
                                          ''daemon_id'' \<mapsto> VString ''d-1''])\<rparr>
            NewRegistry
            (\<lparr>dial = Some \<lparr>inbound = [Segment [0, 0, 0, 2, 0x7B, 0x7D]], outbound = [],
                           write_errors = []\<rparr>, polls = Suc 0\<rparr>
             # replicate 3 \<lparr>dial = None, polls = 0\<rparr>)
            \<lparr>primeAddress = ''localhost:50051'', registrationKey = ''k'', name = ''macbook'',
             hostname = ''macbook'', capabilities = [], isSoulDaemon = False, ultronRoot = [],
             conn = None, daemonID = [], reconnectDelay = 60000000000,
             maxReconnect = 60000000000\<rparr>
         = Done ([1000000000, 2000000000, 4000000000, 8000000000], c'))"
proof -
  let ?codec = "\<lparr>Marshal = (\<lambda>m. Inr [0x7B, 0x7D]),
                    Unmarshal = (\<lambda>d. Inr [''type'' \<mapsto> VString ''registration_ack'',
                                          ''success'' \<mapsto> VBool True,
                                          ''daemon_id'' \<mapsto> VString ''d-1''])\<rparr>"
  let ?cn = "\<lparr>inbound = [Segment [0, 0, 0, 2, 0x7B, 0x7D]], outbound = [], write_errors = []\<rparr>"
  let ?a = "\<lparr>dial = Some ?cn, polls = Suc 0\<rparr>"
  let ?c = "\<lparr>primeAddress = ''localhost:50051'', registrationKey = ''k'', name = ''macbook'',
             hostname = ''macbook'', capabilities = [], isSoulDaemon = False, ultronRoot = [],
             conn = None, daemonID = [], reconnectDelay = 60000000000,
             maxReconnect = 60000000000\<rparr>"
  let ?c1 = "\<lparr>primeAddress = ''localhost:50051'', registrationKey = ''k'', name = ''macbook'',
             hostname = ''macbook'', capabilities = [], isSoulDaemon = False, ultronRoot = [],
             conn = None, daemonID = ''d-1'', reconnectDelay = 1000000000,
             maxReconnect = 60000000000\<rparr>"
  have co: "connectOnce ?codec NewRegistry ?c ?a = Done (Errorf ''connection closed'', ?c1)"
    by (simp add: connectOnce_def sendRegistration_def sendMessage_def readMessage_def
        conn_Write_def ReadFull_def ReadAtLeast.simps bufio_Read_def conn_Read_def
        defaultBufSize_def PutUint32_def TypeRegistrationAck_def bool_field_def Second_def Let_def)
  have d: "dial ?a = Some ?cn" by simp
  have mx: "maxReconnect ?c = 60 * Second" by (simp add: Second_def)
  have ne: "Errorf ''connection closed'' \<noteq> Canceled" by simp
  let ?cfg = "\<lparr>PrimeAddress = ''localhost:50051'', RegistrationKey = ''k'', Name = ''macbook'',
               Hostname = [], Capabilities = [], IsSoulDaemon = False, UltronRoot = []\<rparr>"
  have w1: "\<exists>c'. Connect ?codec NewRegistry (replicate 9 \<lparr>dial = None, polls = 0\<rparr>)
                   (NewClient ''macbook'' ?cfg)
                 = Done (map (\<lambda>i. min (2 ^ i) 60 * Second) [0..<9], c')"
    using reconnect_backoff [of ?codec NewRegistry 9 0 "''macbook''" ?cfg] by blast
  have w2: "\<exists>c'. Connect ?codec NewRegistry (?a # replicate 3 \<lparr>dial = None, polls = 0\<rparr>) ?c
                 = Done (map (\<lambda>i. min (2 ^ i) 60 * Second) [0..<Suc 3], c')"
    using reconnect_backoff [of ?codec NewRegistry 3 0 "''macbook''" ?cfg ?a ?cn ?c
          "Errorf ''connection closed''" ?c1]
      co d mx ne by blast
  have m1: "map (\<lambda>i. min (2 ^ i) 60 * Second) [0..<9]
              = [1000000000, 2000000000, 4000000000, 8000000000, 16000000000, 32000000000,
                 60000000000, 60000000000, 60000000000]"
    by (simp add: Second_def upt_rec)
  have m2: "map (\<lambda>i. min (2 ^ i) 60 * Second) [0..<Suc 3]
              = [1000000000, 2000000000, 4000000000, 8000000000]"
    by (simp add: Second_def upt_rec)
  from w1 w2 show ?thesis
    unfolding m1 m2 by blast
qed

text \<open>
  The claim as stated fails when the failures are rejected registrations: each attempt
  connects, which resets the delay, so three such failures in a row wait one second each.
\<close>

theorem rejected_registration_counterexample:
  "Connect \<lparr>Marshal = (\<lambda>m. Inr [0x7B, 0x7D]),
            Unmarshal = (\<lambda>d. Inr [''type'' \<mapsto> VString ''registration_ack'',
                                  ''success'' \<mapsto> VBool False,
                                  ''message'' \<mapsto> VString ''invalid registration key''])\<rparr>
     NewRegistry
     [\<lparr>dial = Some \<lparr>inbound = [Segment [0, 0, 0, 2, 0x7B, 0x7D]], outbound = [], write_errors = []\<rparr>,
       polls = 1\<rparr>,
      \<lparr>dial = Some \<lparr>inbound = [Segment [0, 0, 0, 2, 0x7B, 0x7D]], outbound = [], write_errors = []\<rparr>,
       polls = 1\<rparr>,
      \<lparr>dial = Some \<lparr>inbound = [Segment [0, 0, 0, 2, 0x7B, 0x7D]], outbound = [], write_errors = []\<rparr>,
       polls = 1\<rparr>]
     \<lparr>primeAddress = ''localhost:50051'', registrationKey = ''wrong'', name = ''macbook'',
      hostname = ''macbook'', capabilities = [], isSoulDaemon = False, ultronRoot = [],
      conn = None, daemonID = [], reconnectDelay = 1000000000, maxReconnect = 60000000000\<rparr>
   = Done ([1000000000, 1000000000, 1000000000],
       \<lparr>primeAddress = ''localhost:50051'', registrationKey = ''wrong'', name = ''macbook'',
        hostname = ''macbook'', capabilities = [], isSoulDaemon = False, ultronRoot = [],
        conn = None, daemonID = [], reconnectDelay = 2000000000, maxReconnect = 60000000000\<rparr>)"
  by (simp add: connectOnce_def sendRegistration_def sendMessage_def readMessage_def
        conn_Write_def ReadFull_def ReadAtLeast.simps bufio_Read_def conn_Read_def
        defaultBufSize_def PutUint32_def TypeRegistrationAck_def bool_field_def Second_def
        wrap64_def Let_def)

section \<open>Heartbeats\<close>



lemma messageLoop_Suc_body:
  "messageLoop codec reg (Suc k) c =
     (case messageLoop_body codec reg c of
        Inl r \<Rightarrow> r
      | Inr c' \<Rightarrow> messageLoop codec reg k c')"
  by (simp add: messageLoop_body_def split: option.splits prod.splits sum.splits exec.splits)


















declare serve.simps [simp del]

lemma serve_Cons:
  assumes "heartbeatLoop codec pct stats t0 k (max k (ticks_before (30 * Second) t0 r)) c = (sent, c1)"
  shows "serve codec reg pct stats t0 k prev (r # rs) c =
           (case messageLoop_body codec reg c1 of
              Inl (Crash p) \<Rightarrow> Crash p
            | Inl (Done res) \<Rightarrow> Done (res, sent, r)
            | Inr c2 \<Rightarrow>
                (case serve codec reg pct stats t0 (max k (ticks_before (30 * Second) t0 r)) r rs c2 of
                   Crash p \<Rightarrow> Crash p
                 | Done (res, sent', t) \<Rightarrow> Done (res, sent @ sent', t)))"
  using assms by (simp add: serve.simps Let_def)




lemma serve_without_ticks:
  assumes "\<forall>r\<in>set rs. r \<le> t0"
  shows "(case serve codec reg pct stats t0 0 prev rs c of
            Crash p \<Rightarrow> Crash p
          | Done (res, sent, t) \<Rightarrow> Done (res, sent))
       = (case messageLoop codec reg (length rs) c of
            Crash p \<Rightarrow> Crash p
          | Done res \<Rightarrow> Done (res, []))"
  using assms
proof (induction rs arbitrary: c prev)
  case Nil
  show ?case by (simp add: serve.simps)
next
  case (Cons r rs)
  then have z: "ticks_before (30 * Second) t0 r = 0"
    by (simp add: ticks_before_def)
  have h: "heartbeatLoop codec pct stats t0 0 (max 0 (ticks_before (30 * Second) t0 r)) c = ([], c)"
    by (simp add: z heartbeatLoop_def)
  from Cons have ih: "(case serve codec reg pct stats t0 0 r rs c2 of
            Crash p \<Rightarrow> Crash p
          | Done (res, sent, t) \<Rightarrow> Done (res, sent))
       = (case messageLoop codec reg (length rs) c2 of
            Crash p \<Rightarrow> Crash p
          | Done res \<Rightarrow> Done (res, []))" for c2
    by simp
  show ?case
  proof (cases "messageLoop_body codec reg c")
    case (Inl x)
    then show ?thesis
      unfolding serve_Cons [OF h] z
      by (simp add: messageLoop_Suc_body del: messageLoop.simps split: exec.splits)
  next
    case (Inr c2)
    then show ?thesis
      unfolding serve_Cons [OF h] z
      using ih [of c2]
      by (simp add: messageLoop_Suc_body del: messageLoop.simps split: exec.splits prod.splits)
  qed
qed

lemma connectOnce_serving_without_ticks:
  assumes "\<forall>r\<in>set (read_times s). r \<le> registered_at s"
  shows "(case connectOnce_serving codec reg pct c dialled s of
            Crash p \<Rightarrow> Crash p
          | Done (res, sent, t) \<Rightarrow> Done (res, sent))
       = (case connectOnce codec reg c \<lparr>dial = dialled, polls = length (read_times s)\<rparr> of
            Crash p \<Rightarrow> Crash p
          | Done res \<Rightarrow> Done (res, []))"
proof (cases dialled)
  case None
  then show ?thesis
    by (simp add: connectOnce_serving_def connectOnce_def)
next
  case (Some cn)
  obtain r c3 where sr: "sendRegistration codec (c\<lparr>conn := Some cn, reconnectDelay := 1 * Second\<rparr>) = (r, c3)"
    by (cases "sendRegistration codec (c\<lparr>conn := Some cn, reconnectDelay := 1 * Second\<rparr>)")
  show ?thesis
  proof (cases r)
    case (Some e)
    with \<open>dialled = Some cn\<close> sr show ?thesis
      by (simp add: connectOnce_serving_def connectOnce_def)
  next
    case None
    from serve_without_ticks [OF assms, of codec reg pct "memstats_at s" "registered_at s" c3]
    show ?thesis
      using \<open>dialled = Some cn\<close> sr None
      by (simp add: connectOnce_serving_def connectOnce_def split: exec.splits prod.splits)
  qed
qed




section \<open>Resource monitor\<close>

lemma Time_Sub_gt:
  "0 \<le> cd \<Longrightarrow> cd < Time_Sub t u \<Longrightarrow> cd < t - u"
  by (auto simp: Time_Sub_def max_def min_def split: if_splits)

lemma check_cases:
  assumes "check pct gb r s = (es, r1)"
  shows "alertCooldown r1 = alertCooldown r"
    and "\<forall>e \<in> set es. Timestamp e = now s \<and> (Type e = ''memory_high'' \<or> Type e = ''disk_high'')"
    and "distinct (map Type es)"
    and "(\<exists>e \<in> set es. Type e = ''memory_high'') \<Longrightarrow>
           lastMemAlert r1 = now s \<and> alertCooldown r < Time_Sub (now s) (lastMemAlert r)"
    and "\<not> (\<exists>e \<in> set es. Type e = ''memory_high'') \<Longrightarrow> lastMemAlert r1 = lastMemAlert r"
    and "(\<exists>e \<in> set es. Type e = ''disk_high'') \<Longrightarrow>
           lastDiskAlert r1 = now s \<and> alertCooldown r < Time_Sub (now s) (lastDiskAlert r)"
    and "\<not> (\<exists>e \<in> set es. Type e = ''disk_high'') \<Longrightarrow> lastDiskAlert r1 = lastDiskAlert r"
  using assms
  by (auto simp: check_def Let_def split: if_splits option.splits)


lemma check_ticks_spaced:
  assumes "check_ticks pct gb ss r = (es, r')" and "0 \<le> alertCooldown r"
  shows "(\<forall>e \<in> set es.
            (Type e = ''memory_high'' \<longrightarrow> alertCooldown r < Timestamp e - lastMemAlert r)
          \<and> (Type e = ''disk_high'' \<longrightarrow> alertCooldown r < Timestamp e - lastDiskAlert r)
          \<and> (Type e = ''memory_high'' \<or> Type e = ''disk_high''))
       \<and> sorted_wrt (spaced (alertCooldown r)) es"
  using assms
proof (induction ss arbitrary: r es r')
  case Nil
  then show ?case by simp
next
  case (Cons s ss)
  let ?cd = "alertCooldown r"
  obtain es1 r1 where c: "check pct gb r s = (es1, r1)"
    by (cases "check pct gb r s")
  obtain es2 r2 where t: "check_ticks pct gb ss r1 = (es2, r2)"
    by (cases "check_ticks pct gb ss r1")
  from Cons.prems c t have es: "es = es1 @ es2"
    by simp
  note ck = check_cases [OF c]
  from ck(1) Cons.prems have cd1: "0 \<le> alertCooldown r1" "alertCooldown r1 = ?cd"
    by simp_all
  from Cons.IH [OF t cd1(1)] cd1(2)
  have ih1: "\<forall>e \<in> set es2.
            (Type e = ''memory_high'' \<longrightarrow> ?cd < Timestamp e - lastMemAlert r1)
          \<and> (Type e = ''disk_high'' \<longrightarrow> ?cd < Timestamp e - lastDiskAlert r1)
          \<and> (Type e = ''memory_high'' \<or> Type e = ''disk_high'')"
    and ih2: "sorted_wrt (spaced ?cd) es2"
    by simp_all
  have mem1: "?cd < now s - lastMemAlert r \<and> lastMemAlert r1 = now s"
    if "\<exists>e \<in> set es1. Type e = ''memory_high''"
    using ck(4) [OF that] Time_Sub_gt [OF Cons.prems(2)] by blast
  have disk1: "?cd < now s - lastDiskAlert r \<and> lastDiskAlert r1 = now s"
    if "\<exists>e \<in> set es1. Type e = ''disk_high''"
    using ck(6) [OF that] Time_Sub_gt [OF Cons.prems(2)] by blast
  have first: "(Type e = ''memory_high'' \<longrightarrow> ?cd < Timestamp e - lastMemAlert r)
          \<and> (Type e = ''disk_high'' \<longrightarrow> ?cd < Timestamp e - lastDiskAlert r)
          \<and> (Type e = ''memory_high'' \<or> Type e = ''disk_high'')" if "e \<in> set es1" for e
    using that ck(2) mem1 disk1 by auto
  have later: "(Type e = ''memory_high'' \<longrightarrow> ?cd < Timestamp e - lastMemAlert r)
          \<and> (Type e = ''disk_high'' \<longrightarrow> ?cd < Timestamp e - lastDiskAlert r)
          \<and> (Type e = ''memory_high'' \<or> Type e = ''disk_high'')" if "e \<in> set es2" for e
  proof (intro conjI impI)
    assume m: "Type e = ''memory_high''"
    with ih1 that have g: "?cd < Timestamp e - lastMemAlert r1" by blast
    show "?cd < Timestamp e - lastMemAlert r"
    proof (cases "\<exists>e \<in> set es1. Type e = ''memory_high''")
      case True
      from mem1 [OF True] g Cons.prems(2) show ?thesis by simp
    next
      case False
      from ck(5) [OF False] g show ?thesis by simp
    qed
  next
    assume d: "Type e = ''disk_high''"
    with ih1 that have g: "?cd < Timestamp e - lastDiskAlert r1" by blast
    show "?cd < Timestamp e - lastDiskAlert r"
    proof (cases "\<exists>e \<in> set es1. Type e = ''disk_high''")
      case True
      from disk1 [OF True] g Cons.prems(2) show ?thesis by simp
    next
      case False
      from ck(7) [OF False] g show ?thesis by simp
    qed
  next
    from ih1 that show "Type e = ''memory_high'' \<or> Type e = ''disk_high''" by blast
  qed
  have same_tick: "sorted_wrt (spaced ?cd) es1"
  proof -
    from ck(3) have "sorted_wrt (\<lambda>e e'. Type e \<noteq> Type e') es1"
      by (simp add: distinct_map sorted_wrt_iff_nth_less distinct_conv_nth inj_on_def)
    then show ?thesis
      by (rule sorted_wrt_mono_rel [rotated]) (simp add: spaced_def)
  qed
  have cross: "spaced ?cd e e'" if "e \<in> set es1" "e' \<in> set es2" for e e'
  proof -
    from ck(2) that(1) have ts: "Timestamp e = now s"
      and ty: "Type e = ''memory_high'' \<or> Type e = ''disk_high''" by blast+
    show ?thesis
      unfolding spaced_def
    proof
      assume eq: "Type e = Type e'"
      from ty show "?cd < Timestamp e' - Timestamp e"
      proof
        assume m: "Type e = ''memory_high''"
        with that(1) have "\<exists>e \<in> set es1. Type e = ''memory_high''" by blast
        from mem1 [OF this] ih1 that(2) eq m ts show ?thesis by auto
      next
        assume d: "Type e = ''disk_high''"
        with that(1) have "\<exists>e \<in> set es1. Type e = ''disk_high''" by blast
        from disk1 [OF this] ih1 that(2) eq d ts show ?thesis by auto
      qed
    qed
  qed
  from first later have part1: "\<forall>e \<in> set es.
            (Type e = ''memory_high'' \<longrightarrow> ?cd < Timestamp e - lastMemAlert r)
          \<and> (Type e = ''disk_high'' \<longrightarrow> ?cd < Timestamp e - lastDiskAlert r)
          \<and> (Type e = ''memory_high'' \<or> Type e = ''disk_high'')"
    unfolding es by auto
  from same_tick ih2 cross have part2: "sorted_wrt (spaced ?cd) es"
    unfolding es by (simp add: sorted_wrt_append)
  from part1 part2 show ?case by blast
qed

lemma check_ticks_types:
  "check_ticks pct gb ss r = (es, r') \<Longrightarrow>
     \<forall>e \<in> set es. Type e = ''memory_high'' \<or> Type e = ''disk_high''"
proof (induction ss arbitrary: r es r')
  case Nil
  then show ?case by simp
next
  case (Cons s ss)
  obtain es1 r1 where c: "check pct gb r s = (es1, r1)"
    by (cases "check pct gb r s")
  obtain es2 r2 where t: "check_ticks pct gb ss r1 = (es2, r2)"
    by (cases "check_ticks pct gb ss r1")
  from Cons.prems c t have es: "es = es1 @ es2"
    by simp
  from check_cases(2) [OF c] Cons.IH [OF t] show ?case
    unfolding es by auto
qed

text \<open>A value above its threshold, with the cooldown over, is reported: memory and disk.\<close>

lemma check_emits_memory:
  assumes "memThreshold r < pct (Alloc (memStats s)) (Sys (memStats s))"
    and "alertCooldown r < Time_Sub (now s) (lastMemAlert r)"
  shows "''memory_high'' \<in> Type ` set (fst (check pct gb r s))"
  using assms by (auto simp: check_def Let_def image_iff split: option.splits)

lemma check_emits_disk:
  assumes "statfs s = Some stat"
    and "diskThreshold r < pct (Blocks stat * Bsize stat - Bfree stat * Bsize stat) (Blocks stat * Bsize stat)"
    and "alertCooldown r < Time_Sub (now s) (lastDiskAlert r)"
  shows "''disk_high'' \<in> Type ` set (fst (check pct gb r s))"
  using assms by (auto simp: check_def Let_def image_iff split: option.splits)

text \<open>
  Claim C7. A tick of the monitor samples the memory statistics and the disk; it never
  samples the CPU. Every event it emits is \<open>memory_high\<close> or \<open>disk_high\<close>, and none is
  \<open>cpu_high\<close>, whatever the load. A new monitor ticks every 30 seconds and holds the
  thresholds 80, 85 and 90, the first of which nothing reads.
\<close>

theorem monitor_event_types:
  "Type ` set (fst (Start pct gb samples r)) \<subseteq> {''memory_high'', ''disk_high''}
   \<and> ''cpu_high'' \<notin> Type ` set (fst (Start pct gb samples r))
   \<and> checkInterval (NewResourceMonitor dn) = 30 * Second
   \<and> cpuThreshold (NewResourceMonitor dn) = 80
   \<and> memThreshold (NewResourceMonitor dn) = 85
   \<and> diskThreshold (NewResourceMonitor dn) = 90"
proof -
  obtain es r' where s: "check_ticks pct gb samples (r\<lparr>running := True\<rparr>) = (es, r')"
    by (cases "check_ticks pct gb samples (r\<lparr>running := True\<rparr>)")
  from check_ticks_types [OF s] have "Type ` set es \<subseteq> {''memory_high'', ''disk_high''}"
    by auto
  moreover have "''cpu_high'' \<notin> {''memory_high'', ''disk_high''}"
    by simp
  ultimately show ?thesis
    using s by (auto simp: Start_def NewResourceMonitor_def)
qed

theorem monitor_event_types_witness:
  "fst (Start (\<lambda>a b. 50) (\<lambda>x. 1)
         [\<lparr>now = 63900000000000000000, memStats = \<lparr>Alloc = 1, Sys = 2\<rparr>,
           statfs = Some \<lparr>Blocks = 100, Bfree = 50, Bsize = 4096\<rparr>\<rparr>]
         (NewResourceMonitor ''macbook'')) = []
   \<and> ''cpu_high'' \<notin> Type ` set (fst (Start (\<lambda>a b. 50) (\<lambda>x. 1)
         [\<lparr>now = 63900000000000000000, memStats = \<lparr>Alloc = 1, Sys = 2\<rparr>,
           statfs = Some \<lparr>Blocks = 100, Bfree = 50, Bsize = 4096\<rparr>\<rparr>]
         (NewResourceMonitor ''macbook'')))"
proof -
  have "fst (Start (\<lambda>a b. 50) (\<lambda>x. 1)
         [\<lparr>now = 63900000000000000000, memStats = \<lparr>Alloc = 1, Sys = 2\<rparr>,
           statfs = Some \<lparr>Blocks = 100, Bfree = 50, Bsize = 4096\<rparr>\<rparr>]
         (NewResourceMonitor ''macbook'')) = []"
    by (simp add: Start_def check_def NewResourceMonitor_def Let_def)
  with monitor_event_types [of "\<lambda>a b. 50" "\<lambda>x. 1"
         "[\<lparr>now = 63900000000000000000, memStats = \<lparr>Alloc = 1, Sys = 2\<rparr>,
           statfs = Some \<lparr>Blocks = 100, Bfree = 50, Bsize = 4096\<rparr>\<rparr>]"
         "NewResourceMonitor ''macbook''"]
  show ?thesis by blast
qed

text \<open>
  Claim C8. Any two events of one kind that the monitor emits are more than the cooldown
  apart: after an emission, none of that kind follows until the cooldown has passed. The
  cooldown of a new monitor is five minutes.
\<close>

theorem event_cooldown:
  assumes "Start pct gb samples r = (es, r')" and "0 \<le> alertCooldown r"
  shows "(\<forall>i j. i < j \<longrightarrow> j < length es \<longrightarrow> Type (es ! i) = Type (es ! j) \<longrightarrow>
            alertCooldown r < Timestamp (es ! j) - Timestamp (es ! i))
       \<and> alertCooldown (NewResourceMonitor dn) = 5 * Minute"
proof -
  from assms have "sorted_wrt (spaced (alertCooldown r)) es"
    using check_ticks_spaced [of pct gb samples "r\<lparr>running := True\<rparr>" es r']
    by (simp add: Start_def)
  then show ?thesis
    by (simp add: sorted_wrt_iff_nth_less spaced_def NewResourceMonitor_def)
qed

theorem event_cooldown_witness:
  "0 \<le> alertCooldown (NewResourceMonitor ''macbook'')
   \<and> map (\<lambda>e. (Type e, Timestamp e))
        (fst (Start (\<lambda>a b. 95) (\<lambda>x. 1)
          [\<lparr>now = 63900000000000000000, memStats = \<lparr>Alloc = 19, Sys = 20\<rparr>, statfs = None\<rparr>,
           \<lparr>now = 63900000030000000000, memStats = \<lparr>Alloc = 19, Sys = 20\<rparr>, statfs = None\<rparr>,
           \<lparr>now = 63900000330000000000, memStats = \<lparr>Alloc = 19, Sys = 20\<rparr>, statfs = None\<rparr>]
          (NewResourceMonitor ''macbook'')))
      = [(''memory_high'', 63900000000000000000), (''memory_high'', 63900000330000000000)]
   \<and> alertCooldown (NewResourceMonitor ''macbook'') < 63900000330000000000 - 63900000000000000000"
proof -
  let ?run = "Start (\<lambda>a b. 95) (\<lambda>x. 1)
          [\<lparr>now = 63900000000000000000, memStats = \<lparr>Alloc = 19, Sys = 20\<rparr>, statfs = None\<rparr>,
           \<lparr>now = 63900000030000000000, memStats = \<lparr>Alloc = 19, Sys = 20\<rparr>, statfs = None\<rparr>,
           \<lparr>now = 63900000330000000000, memStats = \<lparr>Alloc = 19, Sys = 20\<rparr>, statfs = None\<rparr>]
          (NewResourceMonitor ''macbook'')"
  have cd: "0 \<le> alertCooldown (NewResourceMonitor ''macbook'')"
    by (simp add: NewResourceMonitor_def Minute_def Second_def)
  have ev: "map (\<lambda>e. (Type e, Timestamp e)) (fst ?run)
      = [(''memory_high'', 63900000000000000000), (''memory_high'', 63900000330000000000)]"
    by (simp add: Start_def check_def NewResourceMonitor_def Time_Sub_def Minute_def Second_def Let_def)
  have l: "length (fst ?run) = 2"
    using arg_cong [OF ev, of length] by simp
  have n0: "(Type (fst ?run ! 0), Timestamp (fst ?run ! 0)) = (''memory_high'', 63900000000000000000)"
    using arg_cong [OF ev, of "\<lambda>xs. xs ! 0"] l by simp
  have n1: "(Type (fst ?run ! 1), Timestamp (fst ?run ! 1)) = (''memory_high'', 63900000330000000000)"
    using arg_cong [OF ev, of "\<lambda>xs. xs ! 1"] l by simp
  from n0 n1 have t: "Type (fst ?run ! 0) = Type (fst ?run ! 1)"
    "Timestamp (fst ?run ! 0) = 63900000000000000000"
    "Timestamp (fst ?run ! 1) = 63900000330000000000"
    by simp_all
  have h: "?run = (fst ?run, snd ?run)"
    by simp
  from event_cooldown [OF h cd, THEN conjunct1, rule_format, of 0 1] l t
  have "alertCooldown (NewResourceMonitor ''macbook'') < 63900000330000000000 - 63900000000000000000"
    by simp
  with cd ev show ?thesis
    by blast
qed

end
